theory Spec2Isabelle
  imports Complex_Main
begin

section \<open>Python values\<close>

text \<open>
  The scripts work on the values that \<^verbatim>\<open>json.loads\<close> returns. A JSON object is a
  Python dict with string keys, kept here as an association list in insertion order;
  Python's \<^verbatim>\<open>None\<close> is \<open>JNull\<close>. Numbers are the integers: token counters are
  integers, and a number with a fraction or an exponent is outside this model.
  A character is a code point below 256.
\<close>

datatype json =
    JNull
  | JBool bool
  | JInt int
  | JStr string
  | JArr "json list"
  | JObj "(string \<times> json) list"

text \<open>The exceptions the scripts can meet.\<close>

datatype exc =
    JSONDecodeError
  | KeyError
  | TypeError
  | AttributeError
  | ValueError
  | ZeroDivisionError
  | OverflowError

text \<open>Truth value of an object, as \<^verbatim>\<open>if x:\<close> and \<^verbatim>\<open>not x\<close> test it.\<close>

fun truthy :: "json \<Rightarrow> bool" where
  "truthy JNull = False"
| "truthy (JBool b) = b"
| "truthy (JInt n) = (n \<noteq> 0)"
| "truthy (JStr s) = (s \<noteq> [])"
| "truthy (JArr xs) = (xs \<noteq> [])"
| "truthy (JObj kvs) = (kvs \<noteq> [])"

text \<open>\<^verbatim>\<open>d[k] = v\<close> on a dict: an existing key keeps its place, a new key goes last.\<close>

fun dict_set :: "string \<Rightarrow> json \<Rightarrow> (string \<times> json) list \<Rightarrow> (string \<times> json) list" where
  "dict_set k v [] = [(k, v)]"
| "dict_set k v ((k', v') # kvs) =
     (if k' = k then (k, v) # kvs else (k', v') # dict_set k v kvs)"

text \<open>\<^verbatim>\<open>d.get(k, dflt)\<close> on the entries of a dict.\<close>

definition dict_get :: "(string \<times> json) list \<Rightarrow> string \<Rightarrow> json \<Rightarrow> json" where
  "dict_get kvs k dflt = (case map_of kvs k of None \<Rightarrow> dflt | Some v \<Rightarrow> v)"

text \<open>\<^verbatim>\<open>x.get(k, dflt)\<close> on any value: only a dict has the method.\<close>

fun py_get :: "json \<Rightarrow> string \<Rightarrow> json \<Rightarrow> exc + json" where
  "py_get (JObj kvs) k dflt = Inr (dict_get kvs k dflt)"
| "py_get _ k dflt = Inl AttributeError"

text \<open>
  Python's floats are not modelled: the type variable \<open>'f\<close> stands for them. On two
  ints \<^verbatim>\<open>a / b\<close> raises ZeroDivisionError when \<open>b\<close> is 0; otherwise it is the
  quotient rounded to a float, or OverflowError when the quotient is beyond the floats.
  The parameter \<open>fdiv\<close> gives the rounded quotient for a divisor that is not 0, \<open>None\<close>
  when it is out of range. The parameter \<open>fmul\<close> is \<^verbatim>\<open>x * n\<close> for a float and a small
  int, which never raises (it can be infinite).
\<close>

definition truediv :: "(int \<Rightarrow> int \<Rightarrow> 'f option) \<Rightarrow> int \<Rightarrow> int \<Rightarrow> exc + 'f" where
  "truediv fdiv a b =
     (if b = 0 then Inl ZeroDivisionError
      else (case fdiv a b of None \<Rightarrow> Inl OverflowError | Some q \<Rightarrow> Inr q))"

section \<open>Python string operations\<close>

text \<open>\<^verbatim>\<open>str.isspace\<close> on the code points below 256.\<close>

definition is_space :: "char \<Rightarrow> bool" where
  "is_space c = (of_char c \<in> set [9, 10, 11, 12, 13, 28, 29, 30, 31, 32, 133, 160 :: nat])"

definition strip :: "string \<Rightarrow> string" where
  "strip s = rev (dropWhile is_space (rev (dropWhile is_space s)))"

definition startswith :: "string \<Rightarrow> string \<Rightarrow> bool" where
  "startswith s p = (take (length p) s = p)"

text \<open>
  \<^verbatim>\<open>s.split(sep)\<close> for a non-empty separator: the pieces between the occurrences of
  \<open>sep\<close>, found from the left without overlap.
\<close>

function split_on :: "string \<Rightarrow> string \<Rightarrow> string list" where
  "split_on sep [] = [[]]"
| "split_on sep (c # cs) =
     (if startswith (c # cs) sep then [] # split_on sep (drop (length sep - 1) cs)
      else (case split_on sep cs of
              [] \<Rightarrow> [[c]]
            | p # ps \<Rightarrow> (c # p) # ps))"
  by pat_completeness auto
termination
  by (relation "measure (\<lambda>(sep, s). length s)") auto

text \<open>\<^verbatim>\<open>s.split('\n', 1)\<close>: one piece without a newline, else the two sides of the first.\<close>

definition split_nl1 :: "string \<Rightarrow> string list" where
  "split_nl1 s =
     (if CHR ''\<newline>'' \<in> set s
      then [takeWhile (\<lambda>c. c \<noteq> CHR ''\<newline>'') s, tl (dropWhile (\<lambda>c. c \<noteq> CHR ''\<newline>'') s)]
      else [s])"

text \<open>\<^verbatim>\<open>s.replace(old, new, 1)\<close> for a non-empty \<open>old\<close>: the first occurrence only.\<close>

fun replace1 :: "string \<Rightarrow> string \<Rightarrow> string \<Rightarrow> string" where
  "replace1 old new [] = []"
| "replace1 old new (c # cs) =
     (if startswith (c # cs) old then new @ drop (length old) (c # cs)
      else c # replace1 old new cs)"

text \<open>\<^verbatim>\<open>sub in s\<close> on strings.\<close>

fun is_substring :: "string \<Rightarrow> string \<Rightarrow> bool" where
  "is_substring sub [] = (sub = [])"
| "is_substring sub (c # cs) = (startswith (c # cs) sub \<or> is_substring sub cs)"

section \<open>parse_sse_response\<close>

text \<open>
  The scan of lines 35 to 44 of analyze_conversations.py: \<open>bc\<close> is
  \<^verbatim>\<open>brace_count\<close>, \<open>i\<close> the index of the character at the head of the rest; the result
  is \<^verbatim>\<open>json_end\<close>, 0 when the loop ends without a break.
\<close>

fun find_json_end :: "int \<Rightarrow> nat \<Rightarrow> string \<Rightarrow> nat" where
  "find_json_end bc i [] = 0"
| "find_json_end bc i (c # cs) =
     (if c = CHR ''{'' then find_json_end (bc + 1) (i + 1) cs
      else if c = CHR ''}'' then
        (if bc - 1 = 0 then i + 1 else find_json_end (bc - 1) (i + 1) cs)
      else find_json_end bc (i + 1) cs)"

text \<open>
  The three locals of the function. \<open>usage_src\<close> records the aliasing that
  \<^verbatim>\<open>usage = data.get('usage', {})\<close> creates: when the key is there, \<open>usage\<close> is the
  very object inside the payload of the event just appended, at that index of
  \<open>events\<close>, and a later \<^verbatim>\<open>usage.update\<close> changes it in both places.
\<close>

record sse_state =
  full_text :: string
  usage :: json
  events :: "(string \<times> json) list"
  usage_src :: "nat option"

definition sse_init :: sse_state where
  "sse_init = \<lparr>full_text = [], usage = JObj [], events = [], usage_src = None\<rparr>"

text \<open>
  One element of the argument of \<^verbatim>\<open>dict.update\<close> when the argument is a list: it must
  be a sequence of length two, a key and a value. A list of two, a string of two
  characters and a dict of two keys are such sequences; the key must be hashable. A key
  that is a number, a boolean or None enters the dict but no lookup of these scripts can
  read it (they all use string keys), so the model leaves the dict as it is.
  \<open>None\<close> is an exception, which ends the update where it stands.
\<close>

fun update_pair :: "json \<Rightarrow> (string \<times> json) list \<Rightarrow> (string \<times> json) list option" where
  "update_pair (JArr [JStr k, v]) d = Some (dict_set k v d)"
| "update_pair (JArr [JArr k, v]) d = None"
| "update_pair (JArr [JObj k, v]) d = None"
| "update_pair (JArr [k, v]) d = Some d"
| "update_pair (JStr [a, b]) d = Some (dict_set [a] (JStr [b]) d)"
| "update_pair (JObj kvs) d =
     (case remdups (map fst kvs) of
        [a, b] \<Rightarrow> Some (dict_set a (JStr b) d)
      | _ \<Rightarrow> None)"
| "update_pair _ d = None"

fun update_pairs :: "json list \<Rightarrow> (string \<times> json) list \<Rightarrow> (string \<times> json) list" where
  "update_pairs [] d = d"
| "update_pairs (x # xs) d =
     (case update_pair x d of None \<Rightarrow> d | Some d' \<Rightarrow> update_pairs xs d')"

text \<open>
  \<^verbatim>\<open>d.update(x)\<close> on the entries \<open>d\<close> of a dict, for a truthy \<open>x\<close>: the entries
  afterwards, whether the call returned or raised (the caller catches every exception).
  A dict is merged key by key; a list is taken as pairs; a string fails at its first
  character; a number or boolean is not iterable.
\<close>

fun dict_update :: "(string \<times> json) list \<Rightarrow> json \<Rightarrow> (string \<times> json) list" where
  "dict_update d (JObj kvs) = fold (\<lambda>(k, v). dict_set k v) kvs d"
| "dict_update d (JArr xs) = update_pairs xs d"
| "dict_update d _ = d"

text \<open>
  The body of the \<^verbatim>\<open>try\<close> of lines 47 to 64 after \<^verbatim>\<open>json.loads\<close> has returned
  \<open>data\<close>: the event is appended first, so an exception raised further down (a payload
  that is not a dict, a text that is not a string) leaves the event in the list and the
  rest undone.
\<close>

definition on_event :: "string \<Rightarrow> json \<Rightarrow> sse_state \<Rightarrow> sse_state" where
  "on_event event_type data st =
     (let st1 = st\<lparr>events := events st @ [(event_type, data)]\<rparr> in
      if event_type = ''content_block_delta'' then
        (case py_get data ''delta'' (JObj []) of
           Inl e \<Rightarrow> st1
         | Inr delta \<Rightarrow>
             (case py_get delta ''text'' (JStr []) of
                Inr (JStr text) \<Rightarrow> st1\<lparr>full_text := full_text st1 @ text\<rparr>
              | _ \<Rightarrow> st1))
      else if event_type = ''message_delta'' then
        (case data of
           JObj kvs \<Rightarrow>
             st1\<lparr>usage := dict_get kvs ''usage'' (JObj []),
                 usage_src := (if map_of kvs ''usage'' = None then None
                               else Some (length (events st)))\<rparr>
         | _ \<Rightarrow> st1)
      else if event_type = ''message_start'' then
        (case py_get data ''message'' (JObj []) of
           Inl e \<Rightarrow> st1
         | Inr message \<Rightarrow>
             (case py_get message ''usage'' (JObj []) of
                Inl e \<Rightarrow> st1
              | Inr msg_usage \<Rightarrow>
                  if truthy msg_usage then
                    (case usage st1 of
                       JObj d \<Rightarrow>
                         (let u = JObj (dict_update d msg_usage) in
                          st1\<lparr>usage := u,
                              events :=
                                (case usage_src st1 of
                                   None \<Rightarrow> events st1
                                 | Some i \<Rightarrow>
                                     (events st1)[i :=
                                        (case events st1 ! i of
                                           (ty, JObj kvs) \<Rightarrow> (ty, JObj (dict_set ''usage'' u kvs))
                                         | ev \<Rightarrow> ev)])\<rparr>)
                     | _ \<Rightarrow> st1)
                  else st1))
      else st1)"

text \<open>
  Lines 18 to 46: from one piece of the split to the event type and the text handed to
  \<^verbatim>\<open>json.loads\<close>; \<open>None\<close> where the loop says \<^verbatim>\<open>continue\<close> or \<^verbatim>\<open>json_end\<close> stays 0.
\<close>

definition block_json :: "string \<Rightarrow> (string \<times> string) option" where
  "block_json part =
     (if strip part = [] then None
      else
        (let lines = split_nl1 (strip part) in
         if length lines < 2 then None
         else
           (let event_type = strip (lines ! 0);
                data_part = lines ! 1 in
            if \<not> startswith data_part ''data:'' then None
            else
              (let json_str = strip (replace1 ''data:'' [] data_part);
                   json_end = find_json_end 0 0 json_str in
               if json_end > 0 then Some (event_type, take json_end json_str)
               else None))))"

text \<open>
  One round of the loop. \<open>loads\<close> is \<^verbatim>\<open>json.loads\<close>, which is not code of this
  repository: \<open>None\<close> is its exception, caught by the bare \<^verbatim>\<open>except\<close>.
\<close>

definition sse_block :: "(string \<Rightarrow> json option) \<Rightarrow> sse_state \<Rightarrow> string \<Rightarrow> sse_state" where
  "sse_block loads st part =
     (case block_json part of
        None \<Rightarrow> st
      | Some (event_type, js) \<Rightarrow>
          (case loads js of
             None \<Rightarrow> st
           | Some data \<Rightarrow> on_event event_type data st))"

definition sse_result :: "sse_state \<Rightarrow> string \<times> json \<times> (string \<times> json) list" where
  "sse_result st = (full_text st, usage st, events st)"

definition parse_sse_response ::
  "(string \<Rightarrow> json option) \<Rightarrow> string \<Rightarrow> string \<times> json \<times> (string \<times> json) list" where
  "parse_sse_response loads sse_text =
     sse_result (foldl (sse_block loads) sse_init (split_on ''event:'' sse_text))"


text \<open>
  What lines 52 to 54 append to \<^verbatim>\<open>full_text\<close> for one decoded event, and for one
  piece of the split: the \<^verbatim>\<open>delta.text\<close> of a \<^verbatim>\<open>content_block_delta\<close> event when it
  is a string, nothing otherwise.
\<close>

definition event_fragment :: "string \<Rightarrow> json \<Rightarrow> string" where
  "event_fragment event_type data =
     (if event_type = ''content_block_delta'' then
        (case py_get data ''delta'' (JObj []) of
           Inl e \<Rightarrow> []
         | Inr delta \<Rightarrow>
             (case py_get delta ''text'' (JStr []) of
                Inr (JStr text) \<Rightarrow> text
              | _ \<Rightarrow> []))
      else [])"

definition block_fragment :: "(string \<Rightarrow> json option) \<Rightarrow> string \<Rightarrow> string" where
  "block_fragment loads part =
     (case block_json part of
        None \<Rightarrow> []
      | Some (event_type, js) \<Rightarrow>
          (case loads js of
             None \<Rightarrow> []
           | Some data \<Rightarrow> event_fragment event_type data))"

section \<open>analyze_conversations: collecting the records\<close>

text \<open>
  A key of a Python dict must be hashable: lists and dicts are not. Equal keys are one
  key, and \<^verbatim>\<open>True == 1\<close>, \<^verbatim>\<open>False == 0\<close>: \<open>dict_key\<close> gives the representative under
  which the model files a key. (Python keeps the key object that came first, which only
  a printed report would show.)
\<close>

fun hashable :: "json \<Rightarrow> bool" where
  "hashable (JArr xs) = False"
| "hashable (JObj kvs) = False"
| "hashable _ = True"

fun dict_key :: "json \<Rightarrow> json" where
  "dict_key (JBool b) = JInt (if b then 1 else 0)"
| "dict_key k = k"

text \<open>
  One value of \<^verbatim>\<open>conversations\<close>. The \<^verbatim>\<open>defaultdict\<close> creates it with the keys
  \<^verbatim>\<open>request\<close>, \<^verbatim>\<open>response\<close> and \<^verbatim>\<open>timestamp\<close>, all None; the other keys are absent
  (\<open>None\<close> here) until the loop sets them. \<open>c_parse_error\<close> holds the exception whose text
  line 129 stores.
\<close>

record conv =
  c_request :: json
  c_response :: json
  c_timestamp :: json
  c_model :: "json option"
  c_api_key :: "json option"
  c_response_raw :: "json option"
  c_streaming :: "json option"
  c_response_text :: "json option"
  c_usage :: "json option"
  c_parse_error :: "exc option"

definition new_conv :: conv where
  "new_conv = \<lparr>c_request = JNull, c_response = JNull, c_timestamp = JNull,
     c_model = None, c_api_key = None, c_response_raw = None, c_streaming = None,
     c_response_text = None, c_usage = None, c_parse_error = None\<rparr>"

text \<open>
  \<^verbatim>\<open>conversations[k]\<close> followed by assignments to keys of that value: the value is
  created at the end of the mapping when \<open>k\<close> is new, and \<open>f\<close> is what the assignments
  do to it.
\<close>

fun conv_upd :: "json \<Rightarrow> (conv \<Rightarrow> conv) \<Rightarrow> (json \<times> conv) list \<Rightarrow> (json \<times> conv) list" where
  "conv_upd k f [] = [(k, f new_conv)]"
| "conv_upd k f ((k', c) # cs) =
     (if k' = k then (k', f c) # cs else (k', c) # conv_upd k f cs)"

text \<open>
  Lines 81 to 92: what the guards make of one line. \<open>Routed\<close> carries the event type,
  the record, its \<^verbatim>\<open>fields\<close> and \<^verbatim>\<open>span\<close> dicts and the request id. \<open>Raised\<close> is an
  exception that the \<^verbatim>\<open>except json.JSONDecodeError\<close> of line 132 does not catch: the
  run ends there.
\<close>

datatype route =
    Ignored
  | Raised exc
  | Routed json "(string \<times> json) list" "(string \<times> json) list" "(string \<times> json) list" json

definition route_line :: "(string \<Rightarrow> json option) \<Rightarrow> string \<Rightarrow> route" where
  "route_line loads line =
     (case loads (strip line) of
        None \<Rightarrow> Ignored
      | Some (JObj log_rec) \<Rightarrow>
          (case map_of log_rec ''fields'' of
             None \<Rightarrow> Ignored
           | Some (JObj flds) \<Rightarrow>
               (let event_type = dict_get flds ''event_type'' JNull in
                if \<not> truthy event_type then Ignored
                else
                  (case dict_get log_rec ''span'' (JObj []) of
                     JObj span_rec \<Rightarrow>
                       (let request_id = dict_get span_rec ''request_id'' JNull in
                        if \<not> truthy request_id then Ignored
                        else Routed event_type log_rec flds span_rec request_id)
                   | _ \<Rightarrow> Raised AttributeError))
           | Some _ \<Rightarrow> Raised AttributeError)
      | Some (JArr xs) \<Rightarrow> if JStr ''fields'' \<in> set xs then Raised TypeError else Ignored
      | Some (JStr s) \<Rightarrow> if is_substring ''fields'' s then Raised TypeError else Ignored
      | Some _ \<Rightarrow> Raised TypeError)"

text \<open>
  Lines 95 to 102. \<^verbatim>\<open>json.loads\<close> raises on a body that is absent, not a string or
  not JSON, and \<^verbatim>\<open>conversations[request_id]\<close> on an unhashable id, each before
  anything is stored; the bare \<^verbatim>\<open>except\<close> passes.
\<close>

definition request_entry ::
  "(string \<times> json) list \<Rightarrow> (string \<times> json) list \<Rightarrow> json \<Rightarrow> conv \<Rightarrow> conv" where
  "request_entry log_rec span_rec body c =
     c\<lparr>c_request := body,
       c_model := Some (dict_get span_rec ''model'' JNull),
       c_api_key := Some (dict_get span_rec ''api_key_name'' JNull),
       c_timestamp := dict_get log_rec ''timestamp'' JNull\<rparr>"

definition on_request ::
  "(string \<Rightarrow> json option) \<Rightarrow> (string \<times> json) list \<Rightarrow> (string \<times> json) list \<Rightarrow>
   (string \<times> json) list \<Rightarrow> json \<Rightarrow> (json \<times> conv) list \<Rightarrow> (json \<times> conv) list" where
  "on_request loads log_rec flds span_rec request_id cs =
     (case map_of flds ''body'' of
        Some (JStr b) \<Rightarrow>
          (case loads b of
             None \<Rightarrow> cs
           | Some body \<Rightarrow>
               if hashable request_id
               then conv_upd (dict_key request_id) (request_entry log_rec span_rec body) cs
               else cs)
      | _ \<Rightarrow> cs)"

text \<open>
  Lines 121 to 125, the text of a response that is one JSON document. \<open>text\<close> is the
  local of that name; an element that is a dict with a \<^verbatim>\<open>text\<close> that is not a string
  makes \<^verbatim>\<open>+=\<close> raise.
\<close>

fun content_text :: "json list \<Rightarrow> string \<Rightarrow> exc + string" where
  "content_text [] text = Inr text"
| "content_text (JObj kvs # cs) text =
     (case map_of kvs ''text'' of
        None \<Rightarrow> content_text cs text
      | Some (JStr t) \<Rightarrow> content_text cs (text @ t)
      | Some _ \<Rightarrow> Inl TypeError)"
| "content_text (c # cs) text = content_text cs text"

text \<open>
  \<^verbatim>\<open>'content' in resp_json\<close> is a key test on a dict, a membership test on a list, a
  substring test on a string and a TypeError on the rest; \<^verbatim>\<open>resp_json['content']\<close>
  needs a dict. The loop runs over the elements of a list, the characters of a string
  and the keys of a dict (none of which is a dict), and raises on a number or boolean.
\<close>

definition response_text_of :: "json \<Rightarrow> exc + string" where
  "response_text_of resp_json =
     (case resp_json of
        JObj kvs \<Rightarrow>
          (case map_of kvs ''content'' of
             None \<Rightarrow> Inr []
           | Some v \<Rightarrow>
               if truthy v then
                 (case v of
                    JArr xs \<Rightarrow> content_text xs []
                  | JStr s \<Rightarrow> Inr []
                  | JObj d \<Rightarrow> Inr []
                  | _ \<Rightarrow> Inl TypeError)
               else Inr [])
      | JArr xs \<Rightarrow> if JStr ''content'' \<in> set xs then Inl TypeError else Inr []
      | JStr s \<Rightarrow> if is_substring ''content'' s then Inl TypeError else Inr []
      | _ \<Rightarrow> Inl TypeError)"

text \<open>
  Lines 105 to 130 on the value of \<^verbatim>\<open>conversations[request_id]\<close>. The assignments
  made before an exception stay, and the handler of line 128 adds \<^verbatim>\<open>parse_error\<close>.
  A streaming body that is not a string has no \<^verbatim>\<open>split\<close>; \<^verbatim>\<open>json.loads\<close> wants a
  string; \<^verbatim>\<open>resp_json.get\<close> wants a dict, and is called after \<^verbatim>\<open>response_text\<close> is
  stored.
\<close>

definition response_entry ::
  "(string \<Rightarrow> json option) \<Rightarrow> (string \<times> json) list \<Rightarrow> conv \<Rightarrow> conv" where
  "response_entry loads flds c =
     (case map_of flds ''body'' of
        None \<Rightarrow> c\<lparr>c_parse_error := Some KeyError\<rparr>
      | Some body_text \<Rightarrow>
          (let streaming = dict_get flds ''streaming'' (JBool False);
               c1 = c\<lparr>c_response_raw := Some body_text, c_streaming := Some streaming\<rparr> in
           if truthy streaming then
             (case body_text of
                JStr s \<Rightarrow>
                  (let r = parse_sse_response loads s in
                   c1\<lparr>c_response_text := Some (JStr (fst r)), c_usage := Some (fst (snd r))\<rparr>)
              | _ \<Rightarrow> c1\<lparr>c_parse_error := Some AttributeError\<rparr>)
           else
             (case body_text of
                JStr s \<Rightarrow>
                  (case loads s of
                     None \<Rightarrow> c1\<lparr>c_parse_error := Some JSONDecodeError\<rparr>
                   | Some resp_json \<Rightarrow>
                       (case response_text_of resp_json of
                          Inl e \<Rightarrow> c1\<lparr>c_parse_error := Some e\<rparr>
                        | Inr text \<Rightarrow>
                            (let c2 = c1\<lparr>c_response_text := Some (JStr text)\<rparr> in
                             case py_get resp_json ''usage'' (JObj []) of
                               Inl e \<Rightarrow> c2\<lparr>c_parse_error := Some e\<rparr>
                             | Inr u \<Rightarrow> c2\<lparr>c_usage := Some u\<rparr>)))
              | _ \<Rightarrow> c1\<lparr>c_parse_error := Some TypeError\<rparr>)))"

text \<open>
  With an unhashable id the first \<^verbatim>\<open>conversations[request_id]\<close> raises TypeError, and
  so does the one in the handler: that exception leaves the loop.
\<close>

definition on_response ::
  "(string \<Rightarrow> json option) \<Rightarrow> (string \<times> json) list \<Rightarrow> json \<Rightarrow> (json \<times> conv) list \<Rightarrow>
   exc + (json \<times> conv) list" where
  "on_response loads flds request_id cs =
     (if hashable request_id
      then Inr (conv_upd (dict_key request_id) (response_entry loads flds) cs)
      else Inl TypeError)"

definition conv_step ::
  "(string \<Rightarrow> json option) \<Rightarrow> (json \<times> conv) list \<Rightarrow> string \<Rightarrow> exc + (json \<times> conv) list" where
  "conv_step loads cs line =
     (case route_line loads line of
        Ignored \<Rightarrow> Inr cs
      | Raised e \<Rightarrow> Inl e
      | Routed event_type log_rec flds span_rec request_id \<Rightarrow>
          if event_type = JStr ''request_body''
          then Inr (on_request loads log_rec flds span_rec request_id cs)
          else if event_type = JStr ''response_body''
          then on_response loads flds request_id cs
          else Inr cs)"

text \<open>The loop of lines 79 to 133 over the lines of the file.\<close>

fun collect ::
  "(string \<Rightarrow> json option) \<Rightarrow> (json \<times> conv) list \<Rightarrow> string list \<Rightarrow> exc + (json \<times> conv) list" where
  "collect loads cs [] = Inr cs"
| "collect loads cs (line # lines) =
     (case conv_step loads cs line of
        Inl e \<Rightarrow> Inl e
      | Inr cs' \<Rightarrow> collect loads cs' lines)"

text \<open>Lines 136 and 137.\<close>

definition complete_conversations :: "(json \<times> conv) list \<Rightarrow> (json \<times> conv) list" where
  "complete_conversations cs =
     filter (\<lambda>(k, v). c_request v \<noteq> JNull \<and> c_response_text v \<noteq> None) cs"

text \<open>
  A line that the loop takes as a request: routed as \<^verbatim>\<open>request_body\<close>, with a
  hashable id and a body that is a string \<^verbatim>\<open>json.loads\<close> accepts. The result is
  the key of its conversation with the body, model, key name and timestamp that lines
  97 to 100 store.
\<close>

definition request_of ::
  "(string \<Rightarrow> json option) \<Rightarrow> string \<Rightarrow> (json \<times> json \<times> json \<times> json \<times> json) option" where
  "request_of loads line =
     (case route_line loads line of
        Routed event_type log_rec flds span_rec request_id \<Rightarrow>
          if event_type = JStr ''request_body'' \<and> hashable request_id then
            (case map_of flds ''body'' of
               Some (JStr b) \<Rightarrow>
                 (case loads b of
                    None \<Rightarrow> None
                  | Some body \<Rightarrow>
                      Some (dict_key request_id, body, dict_get span_rec ''model'' JNull,
                            dict_get span_rec ''api_key_name'' JNull,
                            dict_get log_rec ''timestamp'' JNull))
             | _ \<Rightarrow> None)
          else None
      | _ \<Rightarrow> None)"

text \<open>The four values that a request record sets.\<close>

definition request_part :: "conv \<Rightarrow> json \<times> json option \<times> json option \<times> json" where
  "request_part c = (c_request c, c_model c, c_api_key c, c_timestamp c)"


section \<open>analyze_conversations: the summary\<close>










section \<open>log_analysis_report: collecting the records\<close>

text \<open>A \<^verbatim>\<open>Counter\<close>: \<^verbatim>\<open>counts[k] += 1\<close> and the count of a key, 0 when absent.\<close>

fun counter_inc :: "json \<Rightarrow> (json \<times> nat) list \<Rightarrow> (json \<times> nat) list" where
  "counter_inc k [] = [(k, 1)]"
| "counter_inc k ((k', n) # kns) =
     (if k' = k then (k', n + 1) # kns else (k', n) # counter_inc k kns)"

definition counter_get :: "(json \<times> nat) list \<Rightarrow> json \<Rightarrow> nat" where
  "counter_get kns k = (case map_of kns k of None \<Rightarrow> 0 | Some n \<Rightarrow> n)"

text \<open>The dict stored at line 53.\<close>

record report_conv =
  r_model :: json
  r_api_key :: json
  r_request :: json
  r_timestamp :: json

text \<open>\<^verbatim>\<open>conversations[k] = v\<close>.\<close>

fun conv_set :: "json \<Rightarrow> report_conv \<Rightarrow> (json \<times> report_conv) list \<Rightarrow> (json \<times> report_conv) list" where
  "conv_set k v [] = [(k, v)]"
| "conv_set k v ((k', v') # kvs) =
     (if k' = k then (k', v) # kvs else (k', v') # conv_set k v kvs)"

text \<open>
  The state of the loop of lines 25 to 69: \<^verbatim>\<open>stats\<close> (four entries), \<^verbatim>\<open>errors\<close> as
  triples of time, message and target, \<^verbatim>\<open>conversations\<close>, and \<^verbatim>\<open>request_bodies\<close> as
  triples of request id, model and body.
\<close>

record report_state =
  total_requests :: nat
  models :: "(json \<times> nat) list"
  api_keys :: "(json \<times> nat) list"
  error_counts :: "(json \<times> nat) list"
  errors :: "(json \<times> json \<times> json) list"
  conversations :: "(json \<times> report_conv) list"
  request_bodies :: "(json \<times> json \<times> json) list"

definition report_init :: report_state where
  "report_init = \<lparr>total_requests = 0, models = [], api_keys = [], error_counts = [],
     errors = [], conversations = [], request_bodies = []\<rparr>"

text \<open>
  The \<^verbatim>\<open>try\<close> of lines 45 to 66. Each statement can raise, and the bare \<^verbatim>\<open>except\<close>
  keeps what the statements before it have done: a body that is absent, not a string,
  not JSON or not a dict stops before any count; an unhashable model stops there; an
  unhashable key name stops after the model is counted; an unhashable request id stops
  after both are counted.
\<close>

definition report_request ::
  "(string \<Rightarrow> json option) \<Rightarrow> (string \<times> json) list \<Rightarrow> (string \<times> json) list \<Rightarrow>
   (string \<times> json) list \<Rightarrow> report_state \<Rightarrow> report_state" where
  "report_request loads log_rec flds span_rec st =
     (case map_of flds ''body'' of
        Some (JStr b) \<Rightarrow>
          (case loads b of
             Some (JObj body) \<Rightarrow>
               (let model = dict_get body ''model'' (JStr ''unknown'') in
                if \<not> hashable model then st
                else
                  (let st1 = st\<lparr>models := counter_inc (dict_key model) (models st)\<rparr>;
                       api_key = dict_get span_rec ''api_key_name'' (JStr ''unknown'') in
                   if \<not> hashable api_key then st1
                   else
                     (let st2 = st1\<lparr>api_keys := counter_inc (dict_key api_key) (api_keys st1)\<rparr>;
                          request_id = dict_get span_rec ''request_id'' JNull in
                      if \<not> hashable request_id then st2
                      else
                        st2\<lparr>conversations :=
                              conv_set (dict_key request_id)
                                \<lparr>r_model = model, r_api_key = api_key, r_request = JObj body,
                                 r_timestamp = dict_get log_rec ''timestamp'' JNull\<rparr>
                                (conversations st2),
                            request_bodies :=
                              request_bodies st2 @ [(request_id, model, JObj body)]\<rparr>)))
           | _ \<Rightarrow> st)
      | _ \<Rightarrow> st)"

text \<open>
  Lines 31 to 38: an ERROR record is appended to \<^verbatim>\<open>errors\<close> and counted under its
  message. \<^verbatim>\<open>log.get('fields', {}).get\<close> needs a dict, and the counter a hashable
  message; neither exception is caught.
\<close>

definition report_error :: "(string \<times> json) list \<Rightarrow> report_state \<Rightarrow> exc + report_state" where
  "report_error log_rec st =
     (if dict_get log_rec ''level'' JNull = JStr ''ERROR'' then
        (case dict_get log_rec ''fields'' (JObj []) of
           JObj flds \<Rightarrow>
             (let error_msg = dict_get flds ''message'' (JStr []) in
              if hashable error_msg
              then Inr (st\<lparr>errors := errors st @
                               [(dict_get log_rec ''timestamp'' JNull, error_msg,
                                 dict_get log_rec ''target'' JNull)],
                           error_counts := counter_inc (dict_key error_msg) (error_counts st)\<rparr>)
              else Inl TypeError)
         | _ \<Rightarrow> Inl AttributeError)
      else Inr st)"

text \<open>
  One line. A line that is JSON but not a dict has no \<^verbatim>\<open>get\<close>; \<^verbatim>\<open>fields\<close> and
  \<^verbatim>\<open>span\<close> must be dicts where they are read (lines 41 and 43, outside the \<^verbatim>\<open>try\<close>).
\<close>

definition report_step ::
  "(string \<Rightarrow> json option) \<Rightarrow> report_state \<Rightarrow> string \<Rightarrow> exc + report_state" where
  "report_step loads st line =
     (case loads (strip line) of
        None \<Rightarrow> Inr st
      | Some (JObj log_rec) \<Rightarrow>
          (case report_error log_rec st of
             Inl e \<Rightarrow> Inl e
           | Inr st1 \<Rightarrow>
               (case dict_get log_rec ''fields'' (JObj []) of
                  JObj flds \<Rightarrow>
                    if dict_get flds ''event_type'' JNull = JStr ''request_body'' then
                      (case dict_get log_rec ''span'' (JObj []) of
                         JObj span_rec \<Rightarrow>
                           Inr (report_request loads log_rec flds span_rec
                                  (st1\<lparr>total_requests := total_requests st1 + 1\<rparr>))
                       | _ \<Rightarrow> Inl AttributeError)
                    else Inr st1
                | _ \<Rightarrow> Inl AttributeError))
      | Some _ \<Rightarrow> Inl AttributeError)"

fun report_loop ::
  "(string \<Rightarrow> json option) \<Rightarrow> report_state \<Rightarrow> string list \<Rightarrow> exc + report_state" where
  "report_loop loads st [] = Inr st"
| "report_loop loads st (line # lines) =
     (case report_step loads st line of
        Inl e \<Rightarrow> Inl e
      | Inr st' \<Rightarrow> report_loop loads st' lines)"

text \<open>
  A line from which the \<^verbatim>\<open>try\<close> of lines 45 to 66 gets a body: a
  \<^verbatim>\<open>request_body\<close> record whose body is a string that decodes to a dict. Such a
  line counts its model when the model is hashable, its key name when both are, and is
  stored under its request id when all three are.
\<close>

definition report_body ::
  "(string \<Rightarrow> json option) \<Rightarrow> string \<Rightarrow>
   ((string \<times> json) list \<times> (string \<times> json) list \<times> (string \<times> json) list) option" where
  "report_body loads line =
     (case loads (strip line) of
        Some (JObj log_rec) \<Rightarrow>
          (case dict_get log_rec ''fields'' (JObj []) of
             JObj flds \<Rightarrow>
               if dict_get flds ''event_type'' JNull = JStr ''request_body'' then
                 (case dict_get log_rec ''span'' (JObj []) of
                    JObj span_rec \<Rightarrow>
                      (case map_of flds ''body'' of
                         Some (JStr b) \<Rightarrow>
                           (case loads b of
                              Some (JObj body) \<Rightarrow> Some (log_rec, span_rec, body)
                            | _ \<Rightarrow> None)
                       | _ \<Rightarrow> None)
                  | _ \<Rightarrow> None)
               else None
           | _ \<Rightarrow> None)
      | _ \<Rightarrow> None)"

definition counted_model :: "(string \<Rightarrow> json option) \<Rightarrow> string \<Rightarrow> json option" where
  "counted_model loads line =
     (case report_body loads line of
        None \<Rightarrow> None
      | Some (log_rec, span_rec, body) \<Rightarrow>
          (let model = dict_get body ''model'' (JStr ''unknown'') in
           if hashable model then Some (dict_key model) else None))"

definition counted_api_key :: "(string \<Rightarrow> json option) \<Rightarrow> string \<Rightarrow> json option" where
  "counted_api_key loads line =
     (case report_body loads line of
        None \<Rightarrow> None
      | Some (log_rec, span_rec, body) \<Rightarrow>
          (let model = dict_get body ''model'' (JStr ''unknown'');
               api_key = dict_get span_rec ''api_key_name'' (JStr ''unknown'') in
           if hashable model \<and> hashable api_key then Some (dict_key api_key) else None))"

definition stored_request ::
  "(string \<Rightarrow> json option) \<Rightarrow> string \<Rightarrow> (json \<times> report_conv) option" where
  "stored_request loads line =
     (case report_body loads line of
        None \<Rightarrow> None
      | Some (log_rec, span_rec, body) \<Rightarrow>
          (let model = dict_get body ''model'' (JStr ''unknown'');
               api_key = dict_get span_rec ''api_key_name'' (JStr ''unknown'');
               request_id = dict_get span_rec ''request_id'' JNull in
           if hashable model \<and> hashable api_key \<and> hashable request_id
           then Some (dict_key request_id,
                      \<lparr>r_model = model, r_api_key = api_key, r_request = JObj body,
                       r_timestamp = dict_get log_rec ''timestamp'' JNull\<rparr>)
           else None))"


section \<open>log_analysis_report: interaction features\<close>

text \<open>
  The counters of lines 177 to 181. \<^verbatim>\<open>interaction_types\<close> is a Counter with three
  possible keys, the labels for tool use, cache use and JSON-schema output, kept as
  three fields.
\<close>

record interaction =
  streaming_count :: nat
  has_tools :: nat
  has_system_prompt :: nat
  has_cache :: nat
  it_tool_use :: nat
  it_cache_use :: nat
  it_json_schema :: nat

definition interaction_init :: interaction where
  "interaction_init = \<lparr>streaming_count = 0, has_tools = 0, has_system_prompt = 0,
     has_cache = 0, it_tool_use = 0, it_cache_use = 0, it_json_schema = 0\<rparr>"

text \<open>
  Lines 197 to 202: is some element of \<^verbatim>\<open>req['system']\<close> a dict with a truthy
  \<^verbatim>\<open>cache_control\<close>? The loop needs an iterable; the characters of a string and the
  keys of a dict are not dicts.
\<close>

fun cache_marked :: "json list \<Rightarrow> bool" where
  "cache_marked [] = False"
| "cache_marked (JObj kvs # xs) =
     (truthy (dict_get kvs ''cache_control'' JNull) \<or> cache_marked xs)"
| "cache_marked (x # xs) = cache_marked xs"

definition system_cached :: "json \<Rightarrow> exc + bool" where
  "system_cached sys =
     (if truthy sys then
        (case sys of
           JArr xs \<Rightarrow> Inr (cache_marked xs)
         | JStr s \<Rightarrow> Inr False
         | JObj d \<Rightarrow> Inr False
         | _ \<Rightarrow> Inl TypeError)
      else Inr False)"

text \<open>Lines 184 to 208 for one conversation; \<open>req\<close> is \<^verbatim>\<open>conv['request']\<close>.\<close>

definition classify :: "interaction \<Rightarrow> json \<Rightarrow> exc + interaction" where
  "classify it req =
     (case req of
        JObj d \<Rightarrow>
          (let it1 = (if truthy (dict_get d ''stream'' JNull)
                      then it\<lparr>streaming_count := streaming_count it + 1\<rparr> else it);
               it2 = (if truthy (dict_get d ''tools'' JNull)
                      then it1\<lparr>has_tools := has_tools it1 + 1,
                               it_tool_use := it_tool_use it1 + 1\<rparr> else it1);
               it3 = (if truthy (dict_get d ''system'' JNull)
                      then it2\<lparr>has_system_prompt := has_system_prompt it2 + 1\<rparr> else it2) in
           case system_cached (dict_get d ''system'' JNull) of
             Inl e \<Rightarrow> Inl e
           | Inr found \<Rightarrow>
               (let it4 = (if found
                           then it3\<lparr>has_cache := has_cache it3 + 1,
                                    it_cache_use := it_cache_use it3 + 1\<rparr> else it3) in
                case map_of d ''output_config'' of
                  None \<Rightarrow> Inr it4
                | Some output_config \<Rightarrow>
                    (case py_get output_config ''format'' (JObj []) of
                       Inl e \<Rightarrow> Inl e
                     | Inr format \<Rightarrow>
                         (case py_get format ''type'' JNull of
                            Inl e \<Rightarrow> Inl e
                          | Inr fmt \<Rightarrow>
                              Inr (if fmt = JStr ''json_schema''
                                   then it4\<lparr>it_json_schema := it_json_schema it4 + 1\<rparr>
                                   else it4)))))
      | _ \<Rightarrow> Inl AttributeError)"

fun classify_all :: "interaction \<Rightarrow> json list \<Rightarrow> exc + interaction" where
  "classify_all it [] = Inr it"
| "classify_all it (req # reqs) =
     (case classify it req of
        Inl e \<Rightarrow> Inl e
      | Inr it' \<Rightarrow> classify_all it' reqs)"

text \<open>
  Lines 183 to 214: the counts, then the four percentages of lines 211 to 214, each
  \<^verbatim>\<open>count/len(conversations)*100\<close>, in the order the lines compute them.
\<close>

record 'f features =
  f_counts :: interaction
  f_streaming :: 'f
  f_tools :: 'f
  f_system :: 'f
  f_cache :: 'f

definition percent ::
  "(int \<Rightarrow> int \<Rightarrow> 'f option) \<Rightarrow> ('f \<Rightarrow> int \<Rightarrow> 'f) \<Rightarrow> nat \<Rightarrow> nat \<Rightarrow> exc + 'f" where
  "percent fdiv fmul count n =
     (case truediv fdiv (int count) (int n) of
        Inl e \<Rightarrow> Inl e
      | Inr q \<Rightarrow> Inr (fmul q 100))"

definition interaction_report ::
  "(int \<Rightarrow> int \<Rightarrow> 'f option) \<Rightarrow> ('f \<Rightarrow> int \<Rightarrow> 'f) \<Rightarrow> (json \<times> report_conv) list \<Rightarrow>
   exc + 'f features" where
  "interaction_report fdiv fmul convs =
     (case classify_all interaction_init (map (\<lambda>(k, v). r_request v) convs) of
        Inl e \<Rightarrow> Inl e
      | Inr it \<Rightarrow>
     (case percent fdiv fmul (streaming_count it) (length convs) of
        Inl e \<Rightarrow> Inl e
      | Inr streaming_pct \<Rightarrow>
     (case percent fdiv fmul (has_tools it) (length convs) of
        Inl e \<Rightarrow> Inl e
      | Inr tools_pct \<Rightarrow>
     (case percent fdiv fmul (has_system_prompt it) (length convs) of
        Inl e \<Rightarrow> Inl e
      | Inr system_pct \<Rightarrow>
     (case percent fdiv fmul (has_cache it) (length convs) of
        Inl e \<Rightarrow> Inl e
      | Inr cache_pct \<Rightarrow>
          Inr \<lparr>f_counts = it, f_streaming = streaming_pct, f_tools = tools_pct,
               f_system = system_pct, f_cache = cache_pct\<rparr>)))))"

section \<open>A reader for JSON texts\<close>

text \<open>
  \<^verbatim>\<open>json.loads\<close> belongs to Python's library, so the functions above take it as the
  parameter \<open>loads\<close> and what is proved of them holds for every reader. To run them on
  a concrete text, \<open>json_loads\<close> reads the JSON grammar without fractions, exponents
  and \<^verbatim>\<open>\u\<close> escapes; a repeated key keeps its last value, as in Python. The first
  argument of the mutually recursive readers bounds the nesting.
\<close>

definition json_ws :: "char \<Rightarrow> bool" where
  "json_ws c = (c = CHR '' '' \<or> c = CHR ''\<newline>'' \<or> c = CHR 0x0D \<or> c = CHR 0x09)"

definition skip_ws :: "string \<Rightarrow> string" where
  "skip_ws = dropWhile json_ws"

definition unescape :: "char \<Rightarrow> char option" where
  "unescape c =
     (if c = CHR 0x22 then Some (CHR 0x22)
      else if c = CHR 0x5C then Some (CHR 0x5C)
      else if c = CHR ''/'' then Some (CHR ''/'')
      else if c = CHR ''b'' then Some (CHR 0x08)
      else if c = CHR ''f'' then Some (CHR 0x0C)
      else if c = CHR ''n'' then Some (CHR ''\<newline>'')
      else if c = CHR ''r'' then Some (CHR 0x0D)
      else if c = CHR ''t'' then Some (CHR 0x09)
      else None)"

text \<open>The characters of a string literal after its opening quote, and the rest.\<close>

fun json_string :: "string \<Rightarrow> string \<Rightarrow> (string \<times> string) option" where
  "json_string acc [] = None"
| "json_string acc [c] = (if c = CHR 0x22 then Some (rev acc, []) else None)"
| "json_string acc (c # e # cs) =
     (if c = CHR 0x22 then Some (rev acc, e # cs)
      else if c = CHR 0x5C then
        (case unescape e of None \<Rightarrow> None | Some x \<Rightarrow> json_string (x # acc) cs)
      else if of_char c < (32 :: nat) then None
      else json_string (c # acc) (e # cs))"

definition is_digit :: "char \<Rightarrow> bool" where
  "is_digit c = (48 \<le> (of_char c :: nat) \<and> (of_char c :: nat) \<le> 57)"

definition digits_val :: "string \<Rightarrow> int" where
  "digits_val ds = foldl (\<lambda>n c. 10 * n + (int (of_char c) - 48)) 0 ds"

text \<open>An unsigned integer literal: a lone zero, or digits that do not start with zero.\<close>

definition json_nat :: "string \<Rightarrow> (int \<times> string) option" where
  "json_nat cs =
     (case cs of
        [] \<Rightarrow> None
      | c # r \<Rightarrow>
          if \<not> is_digit c then None
          else
            (let ds = (if c = CHR ''0'' then [c] else takeWhile is_digit cs);
                 rest = drop (length ds) cs in
             if rest \<noteq> [] \<and> hd rest \<in> set ''.eE'' then None
             else Some (digits_val ds, rest)))"

fun json_value :: "nat \<Rightarrow> string \<Rightarrow> (json \<times> string) option"
  and json_elems :: "nat \<Rightarrow> json list \<Rightarrow> string \<Rightarrow> (json \<times> string) option"
  and json_members :: "nat \<Rightarrow> (string \<times> json) list \<Rightarrow> string \<Rightarrow> (json \<times> string) option"
where
  "json_value 0 cs = None"
| "json_value (Suc n) cs =
     (case skip_ws cs of
        [] \<Rightarrow> None
      | c # r \<Rightarrow>
          if c = CHR ''{'' then
            (if startswith (skip_ws r) ''}'' then Some (JObj [], tl (skip_ws r))
             else json_members n [] r)
          else if c = CHR ''['' then
            (if startswith (skip_ws r) '']'' then Some (JArr [], tl (skip_ws r))
             else json_elems n [] r)
          else if c = CHR 0x22 then
            (case json_string [] r of
               None \<Rightarrow> None
             | Some (s, r') \<Rightarrow> Some (JStr s, r'))
          else if startswith (c # r) ''true'' then Some (JBool True, drop 4 (c # r))
          else if startswith (c # r) ''false'' then Some (JBool False, drop 5 (c # r))
          else if startswith (c # r) ''null'' then Some (JNull, drop 4 (c # r))
          else if c = CHR ''-'' then
            (case json_nat r of
               None \<Rightarrow> None
             | Some (n, r') \<Rightarrow> Some (JInt (- n), r'))
          else
            (case json_nat (c # r) of
               None \<Rightarrow> None
             | Some (n, r') \<Rightarrow> Some (JInt n, r')))"
| "json_elems 0 acc cs = None"
| "json_elems (Suc n) acc cs =
     (case json_value n cs of
        None \<Rightarrow> None
      | Some (v, r) \<Rightarrow>
          (case skip_ws r of
             [] \<Rightarrow> None
           | c # r' \<Rightarrow>
               if c = CHR '','' then json_elems n (acc @ [v]) r'
               else if c = CHR '']'' then Some (JArr (acc @ [v]), r')
               else None))"
| "json_members 0 acc cs = None"
| "json_members (Suc n) acc cs =
     (case skip_ws cs of
        [] \<Rightarrow> None
      | q # r \<Rightarrow>
          if q \<noteq> CHR 0x22 then None
          else
            (case json_string [] r of
               None \<Rightarrow> None
             | Some (k, r1) \<Rightarrow>
                 (case skip_ws r1 of
                    [] \<Rightarrow> None
                  | c # r2 \<Rightarrow>
                      if c \<noteq> CHR '':'' then None
                      else
                        (case json_value n r2 of
                           None \<Rightarrow> None
                         | Some (v, r3) \<Rightarrow>
                             (case skip_ws r3 of
                                [] \<Rightarrow> None
                              | d # r4 \<Rightarrow>
                                  if d = CHR '','' then json_members n (dict_set k v acc) r4
                                  else if d = CHR ''}'' then Some (JObj (dict_set k v acc), r4)
                                  else None)))))"

definition json_loads :: "string \<Rightarrow> json option" where
  "json_loads s =
     (case json_value (Suc (length s)) s of
        None \<Rightarrow> None
      | Some (v, rest) \<Rightarrow> if skip_ws rest = [] then Some v else None)"


section \<open>Streams used as concrete inputs\<close>

definition block_message_start :: string where
  \<open>block_message_start =
     '' message_start\<newline>data: {"message":{"usage":{"input_tokens":10,"output_tokens":1}}}\<newline>\<newline>''\<close>

definition block_message_delta :: string where
  \<open>block_message_delta = '' message_delta\<newline>data: {"usage":{"output_tokens":5}}\<newline>\<newline>''\<close>

definition block_message_stop :: string where
  \<open>block_message_stop = '' message_stop\<newline>data: {"type":"message_stop"}\<newline>\<newline>''\<close>

definition stream_start_then_delta :: string where
  "stream_start_then_delta =
     ''event:'' @ block_message_start @ ''event:'' @ block_message_delta
     @ ''event:'' @ block_message_stop"

definition block_text_he :: string where
  \<open>block_text_he = '' content_block_delta\<newline>data: {"delta":{"text":"he"}}\<newline>\<newline>''\<close>

definition block_text_llo :: string where
  \<open>block_text_llo = '' content_block_delta\<newline>data: {"delta":{"text":"llo"}}\<newline>\<newline>''\<close>

definition block_unbalanced :: string where
  \<open>block_unbalanced = '' ping\<newline>data: {"type": \<newline>\<newline>''\<close>

definition stream_with_bad_block :: string where
  "stream_with_bad_block =
     ''event:'' @ block_text_he @ ''event:'' @ block_unbalanced @ ''event:'' @ block_text_llo"

definition block_close_brace_text :: string where
  \<open>block_close_brace_text = '' content_block_delta\<newline>data: {"delta":{"text":"}"}}\<newline>\<newline>''\<close>

definition block_text_a :: string where
  \<open>block_text_a = '' content_block_delta\<newline>data: {"delta":{"text":"a"}}\<newline>\<newline>''\<close>

definition block_open_brace_text :: string where
  \<open>block_open_brace_text = '' content_block_delta\<newline>data: {"delta":{"text":"{"}}\<newline>\<newline>''\<close>

definition block_text_b :: string where
  \<open>block_text_b = '' content_block_delta\<newline>data: {"delta":{"text":"b"}}\<newline>\<newline>''\<close>

definition stream_open_brace_fragment :: string where
  "stream_open_brace_fragment =
     ''event:'' @ block_text_a @ ''event:'' @ block_open_brace_text @ ''event:'' @ block_text_b"

section \<open>Log lines used as concrete inputs\<close>

text \<open>
  The JSON string literal that encodes a text, as the gateway writes a body into the
  \<^verbatim>\<open>body\<close> field of a log line.
\<close>

definition json_quote :: "string \<Rightarrow> string" where
  "json_quote s =
     [CHR 0x22]
     @ concat (map (\<lambda>c. if c = CHR 0x22 \<or> c = CHR 0x5C then [CHR 0x5C, c]
                          else if c = CHR ''\<newline>'' then [CHR 0x5C, CHR ''n'']
                          else [c]) s)
     @ [CHR 0x22]"

definition text_request_first :: string where
  \<open>text_request_first = ''{"model":"m1","stream":false}''\<close>

definition line_request_first :: string where
  \<open>line_request_first =
     ''{"timestamp":"t1","fields":{"event_type":"request_body","body":''
     @ json_quote text_request_first
     @ ''},"span":{"request_id":"r1","model":"m1","api_key_name":"k1"}}\<newline>''\<close>

definition line_request_again :: string where
  \<open>line_request_again =
     ''{"timestamp":"t2","fields":{"event_type":"request_body","body":''
     @ json_quote ''{"model":"m1","stream":true}''
     @ ''},"span":{"request_id":"r1","model":"m2","api_key_name":"k1"}}\<newline>''\<close>

definition text_response_json :: string where
  \<open>text_response_json =
     ''{"content":[{"text":"hi"}],"usage":{"input_tokens":5,"output_tokens":2}}''\<close>

definition line_response_json :: string where
  \<open>line_response_json =
     ''{"fields":{"event_type":"response_body","body":''
     @ json_quote text_response_json
     @ '',"streaming":false},"span":{"request_id":"r1"}}\<newline>''\<close>


definition line_response_unparseable :: string where
  \<open>line_response_unparseable =
     ''{"fields":{"event_type":"response_body","body":"upstream timeout","streaming":false},"span":{"request_id":"r1"}}\<newline>''\<close>

text \<open>A streaming body cut in the middle of its second block.\<close>

definition stream_cut :: string where
  \<open>stream_cut =
     ''event:'' @ block_text_he @ ''event: content_block_delta\<newline>data: {"delta":{"te''\<close>

definition line_response_stream_cut :: string where
  \<open>line_response_stream_cut =
     ''{"fields":{"event_type":"response_body","body":''
     @ json_quote stream_cut
     @ '',"streaming":true},"span":{"request_id":"r1"}}\<newline>''\<close>

text \<open>What the reader makes of these lines, and the entries they lead to.\<close>

definition span_r1 :: "(string \<times> json) list" where
  "span_r1 = [(''request_id'', JStr ''r1'')]"




definition body_request_first :: json where
  "body_request_first = JObj [(''model'', JStr ''m1''), (''stream'', JBool False)]"

definition body_request_again :: json where
  "body_request_again = JObj [(''model'', JStr ''m1''), (''stream'', JBool True)]"


definition flds_response_unparseable :: "(string \<times> json) list" where
  "flds_response_unparseable =
     [(''event_type'', JStr ''response_body''), (''body'', JStr ''upstream timeout''),
      (''streaming'', JBool False)]"

definition flds_response_stream_cut :: "(string \<times> json) list" where
  "flds_response_stream_cut =
     [(''event_type'', JStr ''response_body''), (''body'', JStr stream_cut),
      (''streaming'', JBool True)]"

definition conv_request_first :: conv where
  "conv_request_first =
     new_conv\<lparr>c_request := body_request_first, c_timestamp := JStr ''t1'',
       c_model := Some (JStr ''m1''), c_api_key := Some (JStr ''k1'')\<rparr>"

definition conv_merged :: conv where
  "conv_merged =
     conv_request_first\<lparr>
       c_response_raw := Some (JStr text_response_json),
       c_streaming := Some (JBool False),
       c_response_text := Some (JStr ''hi''),
       c_usage := Some (JObj [(''input_tokens'', JInt 5), (''output_tokens'', JInt 2)])\<rparr>"

definition conv_retried :: conv where
  "conv_retried =
     conv_merged\<lparr>c_request := body_request_again, c_timestamp := JStr ''t2'',
       c_model := Some (JStr ''m2'')\<rparr>"

definition stored_again :: report_conv where
  "stored_again =
     \<lparr>r_model = JStr ''m1'', r_api_key = JStr ''k1'', r_request = body_request_again,
      r_timestamp = JStr ''t2''\<rparr>"

definition state_two_requests :: report_state where
  "state_two_requests =
     \<lparr>total_requests = 2, models = [(JStr ''m1'', 2)], api_keys = [(JStr ''k1'', 2)],
      error_counts = [], errors = [],
      conversations = [(JStr ''r1'', stored_again)],
      request_bodies =
        [(JStr ''r1'', JStr ''m1'', body_request_first),
         (JStr ''r1'', JStr ''m1'', body_request_again)]\<rparr>"




text \<open>
  A second request for \<^verbatim>\<open>r1\<close> whose body is the JSON list \<^verbatim>\<open>[1]\<close>, and a request
  whose model is a list.
\<close>

definition line_request_list_body :: string where
  \<open>line_request_list_body =
     ''{"timestamp":"t2","fields":{"event_type":"request_body","body":"[1]"},"span":{"request_id":"r1","model":"m2","api_key_name":"k1"}}\<newline>''\<close>

definition line_request_list_model :: string where
  \<open>line_request_list_model =
     ''{"timestamp":"t3","fields":{"event_type":"request_body","body":''
     @ json_quote ''{"model":["x"]}''
     @ ''},"span":{"request_id":"r3","model":"m3","api_key_name":"k1"}}\<newline>''\<close>

section \<open>Properties of parse_sse_response\<close>

lemma sse_block_skip:
  assumes "block_json blk = None \<or> (\<exists>ty js. block_json blk = Some (ty, js) \<and> loads js = None)"
  shows "sse_block loads st blk = st"
  using assms by (auto simp: sse_block_def)

lemma on_event_usage_other:
  "ty \<noteq> ''message_delta'' \<Longrightarrow> ty \<noteq> ''message_start'' \<Longrightarrow>
   usage (on_event ty data st) = usage st"
  by (simp add: on_event_def Let_def split: sum.splits json.splits)

lemma on_event_message_delta:
  "usage (on_event ''message_delta'' (JObj kvs) st) = dict_get kvs ''usage'' (JObj [])"
  by (simp add: on_event_def Let_def)

lemma sse_block_usage_kept:
  assumes "\<forall>ty js. block_json p = Some (ty, js) \<longrightarrow> loads js \<noteq> None \<longrightarrow>
             ty \<noteq> ''message_delta'' \<and> ty \<noteq> ''message_start''"
  shows "usage (sse_block loads st p) = usage st"
  using assms by (auto simp: sse_block_def on_event_usage_other split: option.splits)

lemma foldl_usage_kept:
  assumes "\<forall>p \<in> set post. \<forall>ty js. block_json p = Some (ty, js) \<longrightarrow> loads js \<noteq> None \<longrightarrow>
             ty \<noteq> ''message_delta'' \<and> ty \<noteq> ''message_start''"
  shows "usage (foldl (sse_block loads) st post) = usage st"
  using assms
proof (induction post arbitrary: st)
  case Nil
  then show ?case by simp
next
  case (Cons p post)
  have "usage (foldl (sse_block loads) (sse_block loads st p) post) = usage (sse_block loads st p)"
    using Cons by simp
  also have "\<dots> = usage st"
    using Cons.prems by (intro sse_block_usage_kept) simp
  finally show ?case by simp
qed

text \<open>
  Claim C1 does not hold as stated. The stream below has a \<^verbatim>\<open>message_start\<close> whose
  usage carries \<^verbatim>\<open>input_tokens\<close> and \<^verbatim>\<open>output_tokens\<close>, then a \<^verbatim>\<open>message_delta\<close>
  whose usage carries \<^verbatim>\<open>output_tokens\<close> alone: the usage returned has lost
  \<^verbatim>\<open>input_tokens\<close>, the field present in \<^verbatim>\<open>message_start\<close> only.
\<close>

theorem start_only_fields_lost:
  "fst (snd (parse_sse_response json_loads stream_start_then_delta))
     = JObj [(''output_tokens'', JInt 5)]"
  by code_simp

text \<open>
  Claim C1, amended: line 58 assigns, it does not merge. When a \<^verbatim>\<open>message_delta\<close>
  block decodes to an object and no later block decodes to a \<^verbatim>\<open>message_delta\<close> or
  \<^verbatim>\<open>message_start\<close> event, the usage returned is exactly the \<^verbatim>\<open>usage\<close> member of that
  payload (the empty dict when it has none), whatever the earlier blocks held: the fields
  of the \<^verbatim>\<open>message_delta\<close> payload have its values, and no field of an earlier
  \<^verbatim>\<open>message_start\<close> survives.
\<close>

theorem message_delta_replaces_usage:
  assumes "split_on ''event:'' sse_text = pre @ blk # post"
    and "block_json blk = Some (''message_delta'', js)"
    and "loads js = Some (JObj kvs)"
    and "\<forall>p \<in> set post. \<forall>ty js'. block_json p = Some (ty, js') \<longrightarrow> loads js' \<noteq> None \<longrightarrow>
           ty \<noteq> ''message_delta'' \<and> ty \<noteq> ''message_start''"
  shows "fst (snd (parse_sse_response loads sse_text)) = dict_get kvs ''usage'' (JObj [])"
proof -
  let ?st = "foldl (sse_block loads) sse_init pre"
  have "sse_block loads ?st blk = on_event ''message_delta'' (JObj kvs) ?st"
    using assms(2,3) by (simp add: sse_block_def)
  then have "usage (foldl (sse_block loads) sse_init (pre @ blk # post)) =
             usage (on_event ''message_delta'' (JObj kvs) ?st)"
    using foldl_usage_kept [OF assms(4)] by simp
  then show ?thesis
    using assms(1) by (simp add: parse_sse_response_def sse_result_def on_event_message_delta)
qed

theorem message_delta_replaces_usage_witness:
  \<open>split_on ''event:'' stream_start_then_delta
     = [[], block_message_start] @ block_message_delta # [block_message_stop]
   \<and> block_json block_message_delta = Some (''message_delta'', ''{"usage":{"output_tokens":5}}'')
   \<and> json_loads ''{"usage":{"output_tokens":5}}''
       = Some (JObj [(''usage'', JObj [(''output_tokens'', JInt 5)])])
   \<and> block_json block_message_stop = Some (''message_stop'', ''{"type":"message_stop"}'')
   \<and> fst (snd (parse_sse_response json_loads stream_start_then_delta))
       = dict_get [(''usage'', JObj [(''output_tokens'', JInt 5)])] ''usage'' (JObj [])\<close>
proof -
  have h1: "split_on ''event:'' stream_start_then_delta
              = [[], block_message_start] @ block_message_delta # [block_message_stop]"
    by code_simp
  have h2: \<open>block_json block_message_delta
              = Some (''message_delta'', ''{"usage":{"output_tokens":5}}'')\<close>
    by code_simp
  have h3: \<open>json_loads ''{"usage":{"output_tokens":5}}''
              = Some (JObj [(''usage'', JObj [(''output_tokens'', JInt 5)])])\<close>
    by code_simp
  have h4: \<open>block_json block_message_stop = Some (''message_stop'', ''{"type":"message_stop"}'')\<close>
    by code_simp
  have h5: "\<forall>p \<in> set [block_message_stop]. \<forall>ty js'. block_json p = Some (ty, js') \<longrightarrow>
              json_loads js' \<noteq> None \<longrightarrow> ty \<noteq> ''message_delta'' \<and> ty \<noteq> ''message_start''"
    using h4 by simp
  show ?thesis
    using message_delta_replaces_usage [OF h1 h2 h3 h5] h1 h2 h3 h4 by simp
qed

text \<open>
  Claim C2 at a failing input. The data section is the complete object
  \<^verbatim>\<open>{"delta":{"text":"}"}}\<close>, whose text is a closing brace. The scan counts the brace
  inside the string literal, so the text handed to the reader stops one character
  short, the reader rejects it, and the block yields no event although the whole object
  is well-formed.
\<close>

theorem brace_in_string_cuts_object:
  \<open>block_json block_close_brace_text = Some (''content_block_delta'', ''{"delta":{"text":"}"}'')
   \<and> json_loads ''{"delta":{"text":"}"}'' = None
   \<and> json_loads ''{"delta":{"text":"}"}}'' = Some (JObj [(''delta'', JObj [(''text'', JStr ''}'')])])
   \<and> parse_sse_response json_loads (''event:'' @ block_close_brace_text) = ([], JObj [], [])\<close>
  by code_simp

text \<open>
  The assembled text is the concatenation, in order, of the fragments of the pieces of
  the split, whatever events lie between them: whether a fragment is lost depends only
  on what \<open>block_json\<close> and the reader make of its own block.
\<close>

lemma on_event_text:
  "full_text (on_event ty data st) = full_text st @ event_fragment ty data"
  by (simp add: on_event_def event_fragment_def Let_def split: sum.splits json.splits option.splits)

lemma sse_block_text:
  "full_text (sse_block loads st part) = full_text st @ block_fragment loads part"
  by (simp add: sse_block_def block_fragment_def on_event_text split: option.splits)

lemma foldl_sse_block_text:
  "full_text (foldl (sse_block loads) st parts)
     = full_text st @ concat (map (block_fragment loads) parts)"
  by (induction parts arbitrary: st) (simp_all add: sse_block_text)

lemma assembled_text_is_concat:
  "fst (parse_sse_response loads sse_text)
     = concat (map (block_fragment loads) (split_on ''event:'' sse_text))"
  by (simp add: parse_sse_response_def sse_result_def foldl_sse_block_text sse_init_def)

text \<open>
  Claim C4 at a failing input. Three \<^verbatim>\<open>content_block_delta\<close> events carry the
  fragments \<^verbatim>\<open>a\<close>, \<^verbatim>\<open>{\<close> and \<^verbatim>\<open>b\<close>. The opening brace inside the second string
  literal keeps the brace count above zero to the end of the block, which is dropped:
  the assembled text is \<^verbatim>\<open>ab\<close>, not \<^verbatim>\<open>a{b\<close>.
\<close>

theorem brace_fragment_lost:
  \<open>block_json block_open_brace_text = None
   \<and> json_loads ''{"delta":{"text":"{"}}'' = Some (JObj [(''delta'', JObj [(''text'', JStr ''{'')])])
   \<and> fst (parse_sse_response json_loads stream_open_brace_fragment) = ''ab''\<close>
  by code_simp

text \<open>
  Claim C6: a block without a data section, a block whose braces never balance and a
  block whose extracted text the reader rejects leave the three results as the other
  blocks alone produce them. Every exception of the loop body is a branch of
  \<open>sse_block\<close>, which is total: the function returns for every text.
\<close>

theorem sse_bad_block_skipped:
  assumes "split_on ''event:'' sse_text = pre @ blk # post"
    and "block_json blk = None \<or> (\<exists>ty js. block_json blk = Some (ty, js) \<and> loads js = None)"
  shows "parse_sse_response loads sse_text =
         sse_result (foldl (sse_block loads) sse_init (pre @ post))"
  using assms by (simp add: parse_sse_response_def sse_block_skip)

theorem sse_bad_block_skipped_witness:
  \<open>split_on ''event:'' stream_with_bad_block = [[], block_text_he] @ block_unbalanced # [block_text_llo]
   \<and> block_json block_unbalanced = None
   \<and> parse_sse_response json_loads stream_with_bad_block
       = sse_result (foldl (sse_block json_loads) sse_init ([[], block_text_he] @ [block_text_llo]))
   \<and> sse_result (foldl (sse_block json_loads) sse_init ([[], block_text_he] @ [block_text_llo]))
       = (''hello'', JObj [],
          [(''content_block_delta'', JObj [(''delta'', JObj [(''text'', JStr ''he'')])]),
           (''content_block_delta'', JObj [(''delta'', JObj [(''text'', JStr ''llo'')])])])\<close>
proof -
  have h1: "split_on ''event:'' stream_with_bad_block
              = [[], block_text_he] @ block_unbalanced # [block_text_llo]"
    by code_simp
  have h2: "block_json block_unbalanced = None"
    by code_simp
  have h3: \<open>sse_result (foldl (sse_block json_loads) sse_init ([[], block_text_he] @ [block_text_llo]))
       = (''hello'', JObj [],
          [(''content_block_delta'', JObj [(''delta'', JObj [(''text'', JStr ''he'')])]),
           (''content_block_delta'', JObj [(''delta'', JObj [(''text'', JStr ''llo'')])])])\<close>
    by code_simp
  have h4: "block_json block_unbalanced = None
              \<or> (\<exists>ty js. block_json block_unbalanced = Some (ty, js) \<and> json_loads js = None)"
    using h2 by simp
  show ?thesis
    using sse_bad_block_skipped [OF h1 h4] h1 h2 h3 by simp
qed


section \<open>Properties of the loop of analyze_conversations\<close>





lemma map_of_conv_upd:
  "map_of (conv_upd k f cs) k' =
     (if k' = k then Some (f (case map_of cs k of None \<Rightarrow> new_conv | Some c \<Rightarrow> c))
      else map_of cs k')"
  by (induction cs) auto

lemma on_request_shape:
  "(\<forall>cs. on_request loads lg flds sp rid cs = cs) \<or>
   (\<exists>b body. map_of flds ''body'' = Some (JStr b) \<and> loads b = Some body \<and> hashable rid \<and>
     (\<forall>cs. on_request loads lg flds sp rid cs
            = conv_upd (dict_key rid) (request_entry lg sp body) cs))"
  by (auto simp: on_request_def split: option.splits json.splits)









lemma collect_append:
  "collect loads cs (xs @ ys) =
     (case collect loads cs xs of Inl e \<Rightarrow> Inl e | Inr cs' \<Rightarrow> collect loads cs' ys)"
  by (induction xs arbitrary: cs) (auto split: sum.splits)

lemma request_entry_fun:
  "request_entry lg sp body =
     (\<lambda>c. c\<lparr>c_request := body, c_model := Some (dict_get sp ''model'' JNull),
             c_api_key := Some (dict_get sp ''api_key_name'' JNull),
             c_timestamp := dict_get lg ''timestamp'' JNull\<rparr>)"
  by (intro ext) (simp add: request_entry_def)

lemma conv_step_request:
  assumes "request_of loads l = Some (k, body, m, a, t)"
  shows "conv_step loads cs l =
         Inr (conv_upd k (\<lambda>c. c\<lparr>c_request := body, c_model := Some m, c_api_key := Some a,
                                 c_timestamp := t\<rparr>) cs)"
  using assms
  by (auto simp: request_of_def conv_step_def on_request_def request_entry_fun
      split: route.splits if_splits option.splits json.splits)

lemma response_entry_request_part: "request_part (response_entry loads flds c) = request_part c"
  by (simp add: response_entry_def request_part_def Let_def split: option.splits json.splits sum.splits)

lemma conv_step_keeps_request:
  assumes "conv_step loads cs l = Inr cs'"
    and "\<forall>x. request_of loads l \<noteq> Some (k, x)"
    and "map_of cs k = Some c"
  shows "\<exists>c'. map_of cs' k = Some c' \<and> request_part c' = request_part c"
proof (cases "route_line loads l")
  case Ignored
  then show ?thesis using assms by (simp add: conv_step_def)
next
  case (Raised e)
  then show ?thesis using assms by (simp add: conv_step_def)
next
  case (Routed ev lg flds sp rid)
  consider (req) "ev = JStr ''request_body''" | (resp) "ev \<noteq> JStr ''request_body''" "ev = JStr ''response_body''"
    | (other) "ev \<noteq> JStr ''request_body''" "ev \<noteq> JStr ''response_body''" by blast
  then show ?thesis
  proof cases
    case req
    consider (same) "\<forall>cs. on_request loads lg flds sp rid cs = cs"
      | (upd) b body where "map_of flds ''body'' = Some (JStr b)" "loads b = Some body" "hashable rid"
          "\<forall>cs. on_request loads lg flds sp rid cs = conv_upd (dict_key rid) (request_entry lg sp body) cs"
      using on_request_shape [of loads lg flds sp rid] by blast
    then show ?thesis
    proof cases
      case same
      then show ?thesis using assms Routed req by (simp add: conv_step_def)
    next
      case upd
      then have "request_of loads l = Some (dict_key rid, body, dict_get sp ''model'' JNull,
                            dict_get sp ''api_key_name'' JNull, dict_get lg ''timestamp'' JNull)"
        using Routed req by (simp add: request_of_def)
      then have "dict_key rid \<noteq> k" using assms(2) by auto
      then show ?thesis using assms Routed req upd by (auto simp: conv_step_def map_of_conv_upd)
    qed
  next
    case resp
    then show ?thesis
      using assms Routed
      by (auto simp: conv_step_def on_response_def map_of_conv_upd response_entry_request_part
          split: if_splits)
  next
    case other
    then show ?thesis using assms Routed by (simp add: conv_step_def)
  qed
qed

lemma collect_keeps_request:
  assumes "collect loads cs post = Inr cs'"
    and "\<forall>p \<in> set post. \<forall>x. request_of loads p \<noteq> Some (k, x)"
    and "map_of cs k = Some c"
  shows "\<exists>c'. map_of cs' k = Some c' \<and> request_part c' = request_part c"
  using assms
proof (induction post arbitrary: cs c)
  case Nil
  then show ?case by simp
next
  case (Cons p post)
  then obtain cs1 where s: "conv_step loads cs p = Inr cs1" and r: "collect loads cs1 post = Inr cs'"
    by (auto split: sum.splits)
  obtain c1 where c1: "map_of cs1 k = Some c1" "request_part c1 = request_part c"
    using conv_step_keeps_request [OF s _ Cons.prems(3)] Cons.prems(2) by auto
  obtain c' where "map_of cs' k = Some c'" "request_part c' = request_part c1"
    using Cons.IH [OF r _ c1(1)] Cons.prems(2) by auto
  then show ?case using c1 by auto
qed

lemma last_request_wins_conversations:
  assumes "collect loads cs0 (pre @ l # post) = Inr cs"
    and "request_of loads l = Some (k, body, m, a, t)"
    and "\<forall>p \<in> set post. \<forall>x. request_of loads p \<noteq> Some (k, x)"
  shows "\<exists>c. map_of cs k = Some c \<and> c_request c = body \<and> c_model c = Some m
           \<and> c_api_key c = Some a \<and> c_timestamp c = t"
proof -
  let ?f = "\<lambda>c. c\<lparr>c_request := body, c_model := Some m, c_api_key := Some a, c_timestamp := t\<rparr>"
  obtain cs1 where pre: "collect loads cs0 pre = Inr cs1"
    and rest: "collect loads cs1 (l # post) = Inr cs"
    using assms(1) by (auto simp: collect_append split: sum.splits)
  have post: "collect loads (conv_upd k ?f cs1) post = Inr cs"
    using rest conv_step_request [OF assms(2), of cs1] by simp
  obtain c0 where c0: "map_of (conv_upd k ?f cs1) k = Some c0" "request_part c0 = (body, Some m, Some a, t)"
    by (simp add: map_of_conv_upd request_part_def)
  obtain c where "map_of cs k = Some c" "request_part c = request_part c0"
    using collect_keeps_request [OF post assms(3) c0(1)] by auto
  then show ?thesis using c0(2) by (auto simp: request_part_def)
qed

lemma response_entry_streaming:
  assumes "map_of flds ''body'' = Some (JStr s)"
    and "truthy (dict_get flds ''streaming'' (JBool False))"
  shows "response_entry loads flds =
         (\<lambda>c. c\<lparr>c_response_raw := Some (JStr s),
                 c_streaming := Some (dict_get flds ''streaming'' (JBool False)),
                 c_response_text := Some (JStr (fst (parse_sse_response loads s))),
                 c_usage := Some (fst (snd (parse_sse_response loads s)))\<rparr>)"
  by (intro ext) (simp add: response_entry_def Let_def assms)

lemma response_entry_failure:
  assumes "map_of flds ''body'' = Some (JStr s)"
    and "\<not> truthy (dict_get flds ''streaming'' (JBool False))"
    and "loads s = None \<or> (\<exists>r e. loads s = Some r
           \<and> (response_text_of r = Inl e \<or> py_get r ''usage'' (JObj []) = Inl e))"
  shows "\<exists>e. c_parse_error (response_entry loads flds c) = Some e
           \<and> c_response_raw (response_entry loads flds c) = Some (JStr s)
           \<and> c_streaming (response_entry loads flds c)
               = Some (dict_get flds ''streaming'' (JBool False))"
  using assms by (auto simp: response_entry_def Let_def split: sum.splits)

lemma complete_member:
  assumes "map_of cs k = Some c" and "c_request c \<noteq> JNull" and "c_response_text c \<noteq> None"
  shows "(k, c) \<in> set (complete_conversations cs)"
  using assms map_of_SomeD [OF assms(1)] by (simp add: complete_conversations_def)

text \<open>
  Claim C3 does not hold as stated. A request followed by a streaming response cut in
  mid-block gives a complete conversation with the text assembled so far and no
  \<^verbatim>\<open>parse_error\<close>: nothing marks that the response could not be fully interpreted.
\<close>

theorem stream_cut_has_no_marker:
  "(case collect json_loads [] [line_request_first, line_response_stream_cut] of
      Inl e \<Rightarrow> None
    | Inr cs \<Rightarrow>
        Some (map (\<lambda>(k, v). (c_parse_error v, c_response_text v)) cs,
              map fst (complete_conversations cs)))
   = Some ([(None, Some (JStr ''he''))], [JStr ''r1''])"
  by code_simp

text \<open>
  A request followed by a response whose body is not JSON: line 129 stores
  \<^verbatim>\<open>parse_error\<close> on the entry, and the filter of line 137, which asks for
  \<^verbatim>\<open>response_text\<close>, then leaves the conversation out.
\<close>

lemma unparseable_response_dropped:
  "(case collect json_loads [] [line_request_first, line_response_unparseable] of
      Inl e \<Rightarrow> None
    | Inr cs \<Rightarrow>
        Some (map (\<lambda>(k, v). (c_parse_error v, c_response_text v)) cs,
              map fst (complete_conversations cs)))
   = Some ([(Some JSONDecodeError, None)], [])"
  by code_simp

text \<open>
  Claim C3, amended. A response record with a hashable id and a string body. When it is
  not streaming and the body fails to parse (\<^verbatim>\<open>json.loads\<close> rejects it, or taking
  the text or the usage out of the decoded document raises), the entry of that id gets
  \<^verbatim>\<open>parse_error\<close> together with \<^verbatim>\<open>response_raw\<close> and \<^verbatim>\<open>streaming\<close>, and keeps
  what a request has set. When it is streaming nothing counts as a parse failure: the
  entry gets the text and usage that \<open>parse_sse_response\<close> assembled and is otherwise
  unchanged (no marker), and the conversation is among the complete ones when it has a
  request.
\<close>

theorem parse_failure_marked:
  assumes "route_line loads line = Routed (JStr ''response_body'') lg flds sp rid"
    and "hashable rid"
    and "map_of flds ''body'' = Some (JStr s)"
  shows "(\<not> truthy (dict_get flds ''streaming'' (JBool False))
          \<and> (loads s = None \<or> (\<exists>r e. loads s = Some r
                \<and> (response_text_of r = Inl e \<or> py_get r ''usage'' (JObj []) = Inl e)))
        \<longrightarrow> (\<exists>cs' c' e. conv_step loads cs line = Inr cs'
               \<and> map_of cs' (dict_key rid) = Some c'
               \<and> c_parse_error c' = Some e
               \<and> c_response_raw c' = Some (JStr s)
               \<and> c_streaming c' = Some (dict_get flds ''streaming'' (JBool False))
               \<and> request_part c'
                   = request_part (case map_of cs (dict_key rid) of
                                     None \<Rightarrow> new_conv | Some c \<Rightarrow> c)))
       \<and> (truthy (dict_get flds ''streaming'' (JBool False)) \<longrightarrow>
            (\<exists>cs' c'. conv_step loads cs line = Inr cs'
               \<and> map_of cs' (dict_key rid) = Some c'
               \<and> c' = (case map_of cs (dict_key rid) of None \<Rightarrow> new_conv | Some c \<Rightarrow> c)
                        \<lparr>c_response_raw := Some (JStr s),
                         c_streaming := Some (dict_get flds ''streaming'' (JBool False)),
                         c_response_text := Some (JStr (fst (parse_sse_response loads s))),
                         c_usage := Some (fst (snd (parse_sse_response loads s)))\<rparr>
               \<and> (c_request (case map_of cs (dict_key rid) of
                                None \<Rightarrow> new_conv | Some c \<Rightarrow> c) \<noteq> JNull
                    \<longrightarrow> (dict_key rid, c') \<in> set (complete_conversations cs'))))"
proof (intro conjI impI)
  let ?old = "case map_of cs (dict_key rid) of None \<Rightarrow> new_conv | Some c \<Rightarrow> c"
  let ?cs' = "conv_upd (dict_key rid) (response_entry loads flds) cs"
  have step: "conv_step loads cs line = Inr ?cs'"
    using assms(1,2) by (simp add: conv_step_def on_response_def)
  have look: "map_of ?cs' (dict_key rid) = Some (response_entry loads flds ?old)"
    by (simp add: map_of_conv_upd)
  {
    assume a: "\<not> truthy (dict_get flds ''streaming'' (JBool False))
          \<and> (loads s = None \<or> (\<exists>r e. loads s = Some r
                \<and> (response_text_of r = Inl e \<or> py_get r ''usage'' (JObj []) = Inl e)))"
    then obtain e where "c_parse_error (response_entry loads flds ?old) = Some e"
      "c_response_raw (response_entry loads flds ?old) = Some (JStr s)"
      "c_streaming (response_entry loads flds ?old)
         = Some (dict_get flds ''streaming'' (JBool False))"
      using response_entry_failure [OF assms(3), of loads ?old] by blast
    then show "\<exists>cs' c' e. conv_step loads cs line = Inr cs'
               \<and> map_of cs' (dict_key rid) = Some c'
               \<and> c_parse_error c' = Some e
               \<and> c_response_raw c' = Some (JStr s)
               \<and> c_streaming c' = Some (dict_get flds ''streaming'' (JBool False))
               \<and> request_part c' = request_part ?old"
      using step look response_entry_request_part [of loads flds ?old] by blast
  }
  {
    assume a: "truthy (dict_get flds ''streaming'' (JBool False))"
    let ?c' = "?old\<lparr>c_response_raw := Some (JStr s),
                         c_streaming := Some (dict_get flds ''streaming'' (JBool False)),
                         c_response_text := Some (JStr (fst (parse_sse_response loads s))),
                         c_usage := Some (fst (snd (parse_sse_response loads s)))\<rparr>"
    have e: "response_entry loads flds ?old = ?c'"
      using response_entry_streaming [OF assms(3) a, of loads] by simp
    have "c_request ?old \<noteq> JNull \<longrightarrow> (dict_key rid, ?c') \<in> set (complete_conversations ?cs')"
      using look e by (auto intro!: complete_member)
    then show "\<exists>cs' c'. conv_step loads cs line = Inr cs'
               \<and> map_of cs' (dict_key rid) = Some c'
               \<and> c' = ?c'
               \<and> (c_request ?old \<noteq> JNull
                    \<longrightarrow> (dict_key rid, c') \<in> set (complete_conversations cs'))"
      using step look e by auto
  }
qed

theorem parse_failure_marked_witness:
  "route_line json_loads line_response_unparseable
     = Routed (JStr ''response_body'')
         [(''fields'', JObj flds_response_unparseable), (''span'', JObj span_r1)]
         flds_response_unparseable span_r1 (JStr ''r1'')
   \<and> hashable (JStr ''r1'')
   \<and> map_of flds_response_unparseable ''body'' = Some (JStr ''upstream timeout'')
   \<and> \<not> truthy (dict_get flds_response_unparseable ''streaming'' (JBool False))
   \<and> json_loads ''upstream timeout'' = None
   \<and> (\<exists>cs' c' e. conv_step json_loads [(JStr ''r1'', conv_request_first)] line_response_unparseable
                = Inr cs'
          \<and> map_of cs' (JStr ''r1'') = Some c'
          \<and> c_parse_error c' = Some e
          \<and> c_response_raw c' = Some (JStr ''upstream timeout'')
          \<and> c_streaming c' = Some (JBool False)
          \<and> request_part c' = request_part conv_request_first)
   \<and> route_line json_loads line_response_stream_cut
       = Routed (JStr ''response_body'')
           [(''fields'', JObj flds_response_stream_cut), (''span'', JObj span_r1)]
           flds_response_stream_cut span_r1 (JStr ''r1'')
   \<and> map_of flds_response_stream_cut ''body'' = Some (JStr stream_cut)
   \<and> truthy (dict_get flds_response_stream_cut ''streaming'' (JBool False))
   \<and> c_request conv_request_first \<noteq> JNull
   \<and> (\<exists>cs'. conv_step json_loads [(JStr ''r1'', conv_request_first)] line_response_stream_cut
                = Inr cs'
          \<and> map_of cs' (JStr ''r1'')
              = Some (conv_request_first\<lparr>c_response_raw := Some (JStr stream_cut),
                        c_streaming := Some (JBool True),
                        c_response_text := Some (JStr ''he''),
                        c_usage := Some (JObj [])\<rparr>)
          \<and> (JStr ''r1'',
              conv_request_first\<lparr>c_response_raw := Some (JStr stream_cut),
                c_streaming := Some (JBool True),
                c_response_text := Some (JStr ''he''),
                c_usage := Some (JObj [])\<rparr>) \<in> set (complete_conversations cs'))"
proof -
  have u1: "route_line json_loads line_response_unparseable
     = Routed (JStr ''response_body'')
         [(''fields'', JObj flds_response_unparseable), (''span'', JObj span_r1)]
         flds_response_unparseable span_r1 (JStr ''r1'')"
    by code_simp
  have u2: "hashable (JStr ''r1'')" by simp
  have u3: "map_of flds_response_unparseable ''body'' = Some (JStr ''upstream timeout'')"
    by code_simp
  have u4: "\<not> truthy (dict_get flds_response_unparseable ''streaming'' (JBool False))"
    by code_simp
  have u5: "json_loads ''upstream timeout'' = None"
    by code_simp
  have u6: "map_of [(JStr ''r1'', conv_request_first)] (JStr ''r1'') = Some conv_request_first"
    by simp
  have s1: "route_line json_loads line_response_stream_cut
       = Routed (JStr ''response_body'')
           [(''fields'', JObj flds_response_stream_cut), (''span'', JObj span_r1)]
           flds_response_stream_cut span_r1 (JStr ''r1'')"
    by code_simp
  have s3: "map_of flds_response_stream_cut ''body'' = Some (JStr stream_cut)"
    by code_simp
  have s4: "truthy (dict_get flds_response_stream_cut ''streaming'' (JBool False))"
    by code_simp
  have s5: "dict_get flds_response_stream_cut ''streaming'' (JBool False) = JBool True"
    by code_simp
  have s6: "dict_get flds_response_unparseable ''streaming'' (JBool False) = JBool False"
    by code_simp
  have s7: "parse_sse_response json_loads stream_cut
              = (''he'', JObj [],
                 [(''content_block_delta'', JObj [(''delta'', JObj [(''text'', JStr ''he'')])])])"
    by code_simp
  have rq: "c_request conv_request_first \<noteq> JNull"
    by code_simp
  have a: "\<exists>cs' c' e. conv_step json_loads [(JStr ''r1'', conv_request_first)] line_response_unparseable
                = Inr cs'
          \<and> map_of cs' (JStr ''r1'') = Some c'
          \<and> c_parse_error c' = Some e
          \<and> c_response_raw c' = Some (JStr ''upstream timeout'')
          \<and> c_streaming c' = Some (JBool False)
          \<and> request_part c' = request_part conv_request_first"
    using parse_failure_marked [OF u1 u2 u3, of "[(JStr ''r1'', conv_request_first)]"]
      u4 u5 u6 s6 by simp
  have b: "\<exists>cs'. conv_step json_loads [(JStr ''r1'', conv_request_first)] line_response_stream_cut
                = Inr cs'
          \<and> map_of cs' (JStr ''r1'')
              = Some (conv_request_first\<lparr>c_response_raw := Some (JStr stream_cut),
                        c_streaming := Some (JBool True),
                        c_response_text := Some (JStr ''he''),
                        c_usage := Some (JObj [])\<rparr>)
          \<and> (JStr ''r1'',
              conv_request_first\<lparr>c_response_raw := Some (JStr stream_cut),
                c_streaming := Some (JBool True),
                c_response_text := Some (JStr ''he''),
                c_usage := Some (JObj [])\<rparr>) \<in> set (complete_conversations cs')"
    using parse_failure_marked [OF s1 u2 s3, of "[(JStr ''r1'', conv_request_first)]"]
      s4 s5 s7 rq by simp
  show ?thesis using u1 u2 u3 u4 u5 s1 s3 s4 rq a b by simp
qed


section \<open>Properties of the loop of log_analysis_report\<close>

lemma report_error_keeps:
  assumes "report_error lg st = Inr st1"
  shows "models st1 = models st \<and> api_keys st1 = api_keys st \<and> conversations st1 = conversations st"
  using assms by (auto simp: report_error_def Let_def split: if_splits json.splits)

lemma report_request_effect:
  "models (report_request loads lg flds sp st) =
     (case map_of flds ''body'' of
        Some (JStr b) \<Rightarrow>
          (case loads b of
             Some (JObj body) \<Rightarrow>
               if hashable (dict_get body ''model'' (JStr ''unknown''))
               then counter_inc (dict_key (dict_get body ''model'' (JStr ''unknown''))) (models st)
               else models st
           | _ \<Rightarrow> models st)
      | _ \<Rightarrow> models st)"
  by (simp add: report_request_def Let_def split: option.splits json.splits)

lemma report_step_models:
  assumes "report_step loads st l = Inr st'"
  shows "models st' = (case counted_model loads l of None \<Rightarrow> models st
                       | Some k \<Rightarrow> counter_inc k (models st))"
  using assms
  by (auto simp: report_step_def counted_model_def report_body_def report_request_effect Let_def
      dest!: report_error_keeps split: option.splits json.splits sum.splits if_splits)

lemma report_request_api_keys:
  "api_keys (report_request loads lg flds sp st) =
     (case map_of flds ''body'' of
        Some (JStr b) \<Rightarrow>
          (case loads b of
             Some (JObj body) \<Rightarrow>
               if hashable (dict_get body ''model'' (JStr ''unknown''))
                  \<and> hashable (dict_get sp ''api_key_name'' (JStr ''unknown''))
               then counter_inc (dict_key (dict_get sp ''api_key_name'' (JStr ''unknown'')))
                      (api_keys st)
               else api_keys st
           | _ \<Rightarrow> api_keys st)
      | _ \<Rightarrow> api_keys st)"
  by (simp add: report_request_def Let_def split: option.splits json.splits)

lemma report_request_conversations:
  "conversations (report_request loads lg flds sp st) =
     (case map_of flds ''body'' of
        Some (JStr b) \<Rightarrow>
          (case loads b of
             Some (JObj body) \<Rightarrow>
               if hashable (dict_get body ''model'' (JStr ''unknown''))
                  \<and> hashable (dict_get sp ''api_key_name'' (JStr ''unknown''))
                  \<and> hashable (dict_get sp ''request_id'' JNull)
               then conv_set (dict_key (dict_get sp ''request_id'' JNull))
                      \<lparr>r_model = dict_get body ''model'' (JStr ''unknown''),
                       r_api_key = dict_get sp ''api_key_name'' (JStr ''unknown''),
                       r_request = JObj body,
                       r_timestamp = dict_get lg ''timestamp'' JNull\<rparr>
                      (conversations st)
               else conversations st
           | _ \<Rightarrow> conversations st)
      | _ \<Rightarrow> conversations st)"
  by (simp add: report_request_def Let_def split: option.splits json.splits)

lemma report_step_api_keys:
  assumes "report_step loads st l = Inr st'"
  shows "api_keys st' = (case counted_api_key loads l of None \<Rightarrow> api_keys st
                         | Some k \<Rightarrow> counter_inc k (api_keys st))"
  using assms
  by (auto simp: report_step_def counted_api_key_def report_body_def report_request_api_keys Let_def
      dest!: report_error_keeps split: option.splits json.splits sum.splits if_splits)

lemma report_step_conversations:
  assumes "report_step loads st l = Inr st'"
  shows "conversations st' = (case stored_request loads l of None \<Rightarrow> conversations st
                              | Some (k, e) \<Rightarrow> conv_set k e (conversations st))"
  using assms
  by (auto simp: report_step_def stored_request_def report_body_def report_request_conversations
      Let_def dest!: report_error_keeps split: option.splits json.splits sum.splits if_splits)

lemma counter_get_inc:
  "counter_get (counter_inc k c) k' = counter_get c k' + (if k' = k then 1 else 0)"
  by (induction c) (auto simp: counter_get_def)

lemma map_of_conv_set: "map_of (conv_set k e cs) k' = (if k' = k then Some e else map_of cs k')"
  by (induction cs) auto

lemma report_loop_append:
  "report_loop loads st (xs @ ys) =
     (case report_loop loads st xs of Inl e \<Rightarrow> Inl e | Inr st' \<Rightarrow> report_loop loads st' ys)"
  by (induction xs arbitrary: st) (auto split: sum.splits)

lemma report_loop_models:
  assumes "report_loop loads st0 lines = Inr st"
  shows "counter_get (models st) m =
         counter_get (models st0) m + length (filter (\<lambda>l. counted_model loads l = Some m) lines)"
  using assms
proof (induction lines arbitrary: st0)
  case Nil
  then show ?case by simp
next
  case (Cons l ls)
  then obtain st1 where s: "report_step loads st0 l = Inr st1" and r: "report_loop loads st1 ls = Inr st"
    by (auto split: sum.splits)
  have "counter_get (models st1) m =
        counter_get (models st0) m + (if counted_model loads l = Some m then 1 else 0)"
    using report_step_models [OF s] by (auto simp: counter_get_inc split: option.splits)
  then show ?case using Cons.IH [OF r] by simp
qed

lemma report_loop_api_keys:
  assumes "report_loop loads st0 lines = Inr st"
  shows "counter_get (api_keys st) a =
         counter_get (api_keys st0) a + length (filter (\<lambda>l. counted_api_key loads l = Some a) lines)"
  using assms
proof (induction lines arbitrary: st0)
  case Nil
  then show ?case by simp
next
  case (Cons l ls)
  then obtain st1 where s: "report_step loads st0 l = Inr st1" and r: "report_loop loads st1 ls = Inr st"
    by (auto split: sum.splits)
  have "counter_get (api_keys st1) a =
        counter_get (api_keys st0) a + (if counted_api_key loads l = Some a then 1 else 0)"
    using report_step_api_keys [OF s] by (auto simp: counter_get_inc split: option.splits)
  then show ?case using Cons.IH [OF r] by simp
qed

text \<open>
  Claim C9, amended. Each histogram counts request records, not conversations. The
  count of a model is the number of lines that are \<^verbatim>\<open>request_body\<close> records whose
  body decodes to a dict with that model, the model being hashable
  (\<open>counted_model\<close>); the count of a key name is the number of such lines with that
  key name, model and key name both being hashable (\<open>counted_api_key\<close>). Lines of any
  other kind, responses included, change neither histogram.
\<close>

theorem histograms_count_request_records:
  assumes "report_loop loads report_init lines = Inr st"
  shows "counter_get (models st) m = length (filter (\<lambda>l. counted_model loads l = Some m) lines)
       \<and> counter_get (api_keys st) a
           = length (filter (\<lambda>l. counted_api_key loads l = Some a) lines)"
  using report_loop_models [OF assms, of m] report_loop_api_keys [OF assms, of a]
  by (simp add: report_init_def counter_get_def)

lemma report_loop_keeps_stored:
  assumes "report_loop loads st0 post = Inr st"
    and "\<forall>p \<in> set post. \<forall>x. stored_request loads p \<noteq> Some (k, x)"
  shows "map_of (conversations st) k = map_of (conversations st0) k"
  using assms
proof (induction post arbitrary: st0)
  case Nil
  then show ?case by simp
next
  case (Cons p post)
  then obtain st1 where s: "report_step loads st0 p = Inr st1" and r: "report_loop loads st1 post = Inr st"
    by (auto split: sum.splits)
  have "map_of (conversations st1) k = map_of (conversations st0) k"
    using report_step_conversations [OF s] Cons.prems(2)
    by (auto simp: map_of_conv_set split: option.splits)
  then show ?case using Cons.IH [OF r] Cons.prems(2) by simp
qed

lemma last_request_wins_report:
  assumes "report_loop loads st0 (pre @ l # post) = Inr st"
    and "stored_request loads l = Some (k, e)"
    and "\<forall>p \<in> set post. \<forall>x. stored_request loads p \<noteq> Some (k, x)"
  shows "map_of (conversations st) k = Some e"
proof -
  obtain st1 st2 where pre: "report_loop loads st0 pre = Inr st1"
    and step: "report_step loads st1 l = Inr st2"
    and rest: "report_loop loads st2 post = Inr st"
    using assms(1) by (auto simp: report_loop_append split: sum.splits)
  have "map_of (conversations st2) k = Some e"
    using report_step_conversations [OF step] assms(2) by (simp add: map_of_conv_set)
  then show ?thesis using report_loop_keeps_stored [OF rest assms(3)] by simp
qed

text \<open>
  A request record whose model is a list: line 48 raises inside the \<^verbatim>\<open>try\<close>, and
  the record is counted in neither histogram and not stored.
\<close>

lemma unhashable_model_not_counted:
  "report_body json_loads line_request_list_model \<noteq> None
   \<and> counted_model json_loads line_request_list_model = None
   \<and> counted_api_key json_loads line_request_list_model = None
   \<and> (case report_loop json_loads report_init [line_request_list_model] of
        Inl e \<Rightarrow> None
      | Inr st \<Rightarrow> Some (total_requests st, models st, api_keys st, map fst (conversations st)))
       = Some (1, [], [], [])"
  by code_simp

text \<open>
  Claim C9 does not hold as stated. Two request records with the same request id make
  one conversation, and each histogram counts it twice.
\<close>

theorem requests_counted_per_record:
  "(case report_loop json_loads report_init [line_request_first, line_request_again] of
      Inl e \<Rightarrow> None
    | Inr st \<Rightarrow>
        Some (map fst (conversations st), counter_get (models st) (JStr ''m1''),
              counter_get (api_keys st) (JStr ''k1'')))
   = Some ([JStr ''r1''], 2, 2)"
  by code_simp

theorem histograms_count_request_records_witness:
  "report_loop json_loads report_init [line_request_first, line_request_again, line_response_json]
     = Inr state_two_requests
   \<and> counter_get (models state_two_requests) (JStr ''m1'')
       = length (filter (\<lambda>l. counted_model json_loads l = Some (JStr ''m1''))
                   [line_request_first, line_request_again, line_response_json])
   \<and> counter_get (api_keys state_two_requests) (JStr ''k1'')
       = length (filter (\<lambda>l. counted_api_key json_loads l = Some (JStr ''k1''))
                   [line_request_first, line_request_again, line_response_json])
   \<and> counter_get (models state_two_requests) (JStr ''m1'') = 2
   \<and> counter_get (api_keys state_two_requests) (JStr ''k1'') = 2"
proof -
  have run: "report_loop json_loads report_init
               [line_request_first, line_request_again, line_response_json]
     = Inr state_two_requests"
    by code_simp
  have n: "counter_get (models state_two_requests) (JStr ''m1'') = 2
           \<and> counter_get (api_keys state_two_requests) (JStr ''k1'') = 2"
    by code_simp
  show ?thesis
    using histograms_count_request_records [OF run, of "JStr ''m1''" "JStr ''k1''"] run n by simp
qed

text \<open>
  Claim C10 does not hold as stated. The second request for \<^verbatim>\<open>r1\<close> has the body
  \<^verbatim>\<open>[1]\<close>, which \<^verbatim>\<open>json.loads\<close> decodes. analyze_conversations stores it over
  the first; in log_analysis_report \<^verbatim>\<open>body.get\<close> of line 47 raises inside the
  \<^verbatim>\<open>try\<close>, and the entry keeps the body and timestamp of the first record.
\<close>

theorem list_body_keeps_first_request:
  \<open>json_loads ''[1]'' = Some (JArr [JInt 1])
   \<and> (case report_loop json_loads report_init [line_request_first, line_request_list_body] of
        Inl e \<Rightarrow> None
      | Inr st \<Rightarrow> Some (map (\<lambda>(k, v). (k, r_request v, r_timestamp v)) (conversations st)))
       = Some [(JStr ''r1'', body_request_first, JStr ''t1'')]
   \<and> (case collect json_loads [] [line_request_first, line_request_list_body] of
        Inl e \<Rightarrow> None
      | Inr cs \<Rightarrow> Some (map (\<lambda>(k, v). (k, c_request v, c_timestamp v)) cs))
       = Some [(JStr ''r1'', JArr [JInt 1], JStr ''t2'')]\<close>
  by code_simp

text \<open>
  Claim C10, amended. In both scripts the entry of a request id holds what the last
  stored request record with that id set: after a line that the script stores as a
  request and that is followed by no such line for the same key, the entry has the
  body, model, key name and timestamp of that line, whatever came before it and
  whatever other records come after. analyze_conversations (first part) stores a
  \<^verbatim>\<open>request_body\<close> record with a hashable id whose body \<^verbatim>\<open>json.loads\<close> accepts
  (\<open>request_of\<close>); log_analysis_report (second part) stores one whose body decodes to a
  dict and whose model, key name and id are hashable (\<open>stored_request\<close>).
\<close>

theorem last_request_wins:
  "(collect loads start (pre @ l # post) = Inr cs
      \<and> request_of loads l = Some (k, body, m, a, t)
      \<and> (\<forall>p \<in> set post. \<forall>x. request_of loads p \<noteq> Some (k, x))
    \<longrightarrow> (\<exists>c. map_of cs k = Some c \<and> c_request c = body \<and> c_model c = Some m
              \<and> c_api_key c = Some a \<and> c_timestamp c = t))
   \<and> (report_loop loads rstart (rpre @ rl # rpost) = Inr st
      \<and> stored_request loads rl = Some (rk, e)
      \<and> (\<forall>p \<in> set rpost. \<forall>x. stored_request loads p \<noteq> Some (rk, x))
    \<longrightarrow> map_of (conversations st) rk = Some e)"
  using last_request_wins_conversations last_request_wins_report
  by (intro conjI impI; elim conjE) blast+

theorem last_request_wins_witness:
  "collect json_loads [] ([line_request_first] @ line_request_again # [line_response_json])
     = Inr [(JStr ''r1'', conv_retried)]
   \<and> request_of json_loads line_request_again
       = Some (JStr ''r1'', body_request_again, JStr ''m2'', JStr ''k1'', JStr ''t2'')
   \<and> request_of json_loads line_response_json = None
   \<and> c_request conv_retried = body_request_again \<and> c_model conv_retried = Some (JStr ''m2'')
   \<and> c_api_key conv_retried = Some (JStr ''k1'') \<and> c_timestamp conv_retried = JStr ''t2''
   \<and> report_loop json_loads report_init ([line_request_first] @ line_request_again # [line_response_json])
       = Inr state_two_requests
   \<and> stored_request json_loads line_request_again = Some (JStr ''r1'', stored_again)
   \<and> stored_request json_loads line_response_json = None
   \<and> map_of (conversations state_two_requests) (JStr ''r1'') = Some stored_again"
proof -
  have run: "collect json_loads [] ([line_request_first] @ line_request_again # [line_response_json])
     = Inr [(JStr ''r1'', conv_retried)]"
    by code_simp
  have req: "request_of json_loads line_request_again
       = Some (JStr ''r1'', body_request_again, JStr ''m2'', JStr ''k1'', JStr ''t2'')"
    by code_simp
  have resp: "request_of json_loads line_response_json = None"
    by code_simp
  have rrun: "report_loop json_loads report_init
                ([line_request_first] @ line_request_again # [line_response_json])
       = Inr state_two_requests"
    by code_simp
  have rreq: "stored_request json_loads line_request_again = Some (JStr ''r1'', stored_again)"
    by code_simp
  have rresp: "stored_request json_loads line_response_json = None"
    by code_simp
  note inst = last_request_wins [where loads = json_loads and start = "[]"
      and pre = "[line_request_first]" and l = line_request_again
      and post = "[line_response_json]" and cs = "[(JStr ''r1'', conv_retried)]"
      and k = "JStr ''r1''" and body = body_request_again and m = "JStr ''m2''"
      and a = "JStr ''k1''" and t = "JStr ''t2''"
      and rstart = report_init and rpre = "[line_request_first]" and rl = line_request_again
      and rpost = "[line_response_json]" and st = state_two_requests
      and rk = "JStr ''r1''" and e = stored_again]
  have c1: "c_request conv_retried = body_request_again \<and> c_model conv_retried = Some (JStr ''m2'')
   \<and> c_api_key conv_retried = Some (JStr ''k1'') \<and> c_timestamp conv_retried = JStr ''t2''"
    using inst run req resp by simp
  have c2: "map_of (conversations state_two_requests) (JStr ''r1'') = Some stored_again"
    using inst rrun rreq rresp by simp
  show ?thesis using run req resp rrun rreq rresp c1 c2 by simp
qed

section \<open>Properties of the summary of analyze_conversations\<close>












section \<open>Properties of the interaction features of log_analysis_report\<close>

text \<open>
  Claim C8 at a failing input. A log without a single \<^verbatim>\<open>request_body\<close> record (the
  empty file, or a file of responses only) leaves \<^verbatim>\<open>conversations\<close> empty, and line
  211 divides by its length, whatever the float arithmetic.
\<close>

theorem empty_log_divides_by_zero:
  "report_loop json_loads report_init [] = Inr report_init
   \<and> conversations report_init = []
   \<and> interaction_report fdiv fmul [] = Inl ZeroDivisionError
   \<and> (case report_loop json_loads report_init [line_response_json] of
        Inl e \<Rightarrow> Inl e
      | Inr st \<Rightarrow> interaction_report fdiv fmul (conversations st)) = Inl ZeroDivisionError"
proof -
  have responses_only: "report_loop json_loads report_init [line_response_json] = Inr report_init"
    by code_simp
  have empty: "interaction_report fdiv fmul [] = Inl ZeroDivisionError"
    by (simp add: interaction_report_def percent_def truediv_def)
  show ?thesis
    using responses_only empty by (simp add: report_init_def)
qed

end
